theory Spec2Isabelle
  imports Complex_Main "HOL-Library.Word"
begin

section \<open>Platform types (platform.h, iso\_writer.h)\<close>

datatype fs_type_t =
  FS_UNKNOWN | FS_FAT16 | FS_FAT32 | FS_NTFS | FS_UDF | FS_EXFAT | FS_REFS
  | FS_EXT2 | FS_EXT3 | FS_EXT4 | FS_MAX

datatype partition_style_t = PARTITION_STYLE_MBR | PARTITION_STYLE_GPT

datatype target_type_t = TARGET_BIOS | TARGET_UEFI | TARGET_BIOS_UEFI

datatype write_state_t =
  WRITE_STATE_IDLE | WRITE_STATE_WRITING | WRITE_STATE_SYNCING
  | WRITE_STATE_COMPLETE | WRITE_STATE_ERROR | WRITE_STATE_CANCELLED

type_synonym u64 = "64 word"

section \<open>Device safety classifier (device.c)\<close>

text \<open>
  C strings are modelled as \<open>string\<close> (no embedded NUL); a \<open>char **\<close> that may be
  \<open>NULL\<close> is a \<open>string list option\<close>. \<open>strcmp(a, b) == 0\<close> is equality;
  \<open>strncmp(a, b, n) == 0\<close> compares the first \<open>n\<close> characters, the terminator included
  when a string is shorter.
\<close>

definition forbidden_mounts :: "string list" where
  "forbidden_mounts = [''/'', ''/boot'', ''/boot/efi'', ''/home'']"

definition strncmp_eq :: "string \<Rightarrow> string \<Rightarrow> nat \<Rightarrow> bool" where
  "strncmp_eq a b n = (take n a = take n b)"

text \<open>The inner loop of \<open>has_forbidden_mount\<close>, over \<open>forbidden_mounts[j]\<close>.\<close>

fun forbidden_scan :: "string \<Rightarrow> string list \<Rightarrow> bool" where
  "forbidden_scan m [] = False"
| "forbidden_scan m (f # fs) =
     (if m = f then True
      else if strncmp_eq m ''/home/'' 6 then True
      else forbidden_scan m fs)"

text \<open>The outer loop, over \<open>mounts[i]\<close>.\<close>

fun mounts_scan :: "string list \<Rightarrow> bool" where
  "mounts_scan [] = False"
| "mounts_scan (m # ms) =
     (if forbidden_scan m forbidden_mounts then True else mounts_scan ms)"

definition has_forbidden_mount :: "string list option \<Rightarrow> bool" where
  "has_forbidden_mount mounts =
     (case mounts of None \<Rightarrow> False | Some ms \<Rightarrow> mounts_scan ms)"

text \<open>The fields of \<open>device_info_t\<close> that the modelled functions read.\<close>

record device_info_t =
  dev_name :: string
  dev_path :: string
  dev_size :: u64
  mountpoints :: "string list option"
  mountpoint_count :: int

definition device_is_system_drive :: "device_info_t option \<Rightarrow> bool" where
  "device_is_system_drive dev =
     (case dev of None \<Rightarrow> False | Some d \<Rightarrow> has_forbidden_mount (mountpoints d))"

definition device_is_mounted :: "device_info_t option \<Rightarrow> bool" where
  "device_is_mounted dev =
     (case dev of None \<Rightarrow> False | Some d \<Rightarrow> mountpoint_count d > 0)"

text \<open>
  The mountpoints that the claim calls forbidden: one of the four exact paths, or a path
  that begins with \<open>/home/\<close>.
\<close>

definition forbidden_path :: "string \<Rightarrow> bool" where
  "forbidden_path m =
     (m = ''/'' \<or> m = ''/boot'' \<or> m = ''/boot/efi'' \<or> m = ''/home''
      \<or> take 6 m = ''/home/'')"

section \<open>Partition engine (partition.c)\<close>

subsection \<open>Partition type codes\<close>

definition MBR_TYPE_FAT16 :: nat where "MBR_TYPE_FAT16 = 0x06"
definition MBR_TYPE_FAT32 :: nat where "MBR_TYPE_FAT32 = 0x0B"
definition MBR_TYPE_FAT32_LBA :: nat where "MBR_TYPE_FAT32_LBA = 0x0C"
definition MBR_TYPE_NTFS :: nat where "MBR_TYPE_NTFS = 0x07"
definition MBR_TYPE_LINUX :: nat where "MBR_TYPE_LINUX = 0x83"
definition MBR_TYPE_EFI :: nat where "MBR_TYPE_EFI = 0xEF"

definition GPT_TYPE_EFI :: string where
  "GPT_TYPE_EFI = ''C12A7328-F81F-11D2-BA4B-00A0C93EC93B''"
definition GPT_TYPE_LINUX :: string where
  "GPT_TYPE_LINUX = ''0FC63DAF-8483-4772-8E79-3D69D8477DE4''"
definition GPT_TYPE_MSDATA :: string where
  "GPT_TYPE_MSDATA = ''EBD0A0A2-B9E5-4433-87C0-68B6B72699C7''"

fun get_mbr_type :: "fs_type_t \<Rightarrow> nat" where
  "get_mbr_type FS_FAT16 = MBR_TYPE_FAT16"
| "get_mbr_type FS_FAT32 = MBR_TYPE_FAT32_LBA"
| "get_mbr_type FS_NTFS = MBR_TYPE_NTFS"
| "get_mbr_type FS_EXFAT = MBR_TYPE_NTFS"
| "get_mbr_type FS_EXT2 = MBR_TYPE_LINUX"
| "get_mbr_type FS_EXT3 = MBR_TYPE_LINUX"
| "get_mbr_type FS_EXT4 = MBR_TYPE_LINUX"
| "get_mbr_type _ = MBR_TYPE_FAT32_LBA"

fun get_gpt_type :: "fs_type_t \<Rightarrow> string" where
  "get_gpt_type FS_EXT2 = GPT_TYPE_LINUX"
| "get_gpt_type FS_EXT3 = GPT_TYPE_LINUX"
| "get_gpt_type FS_EXT4 = GPT_TYPE_LINUX"
| "get_gpt_type _ = GPT_TYPE_MSDATA"

subsection \<open>The partition table as libfdisk leaves it on the device\<close>

text \<open>
  libfdisk is outside the repository. Its visible effect is modelled as a table on the
  device: \<open>fdisk_create_disklabel\<close> followed by \<open>fdisk_write_disklabel\<close> replaces the
  table by an empty one of the requested style; \<open>fdisk_add_partition\<close> followed by
  \<open>fdisk_write_disklabel\<close> appends the row that the caller has filled in. A row keeps
  what \<open>partition_add\<close> hands to the library: the zero-based partition number, a start
  and a size in sectors (or the library's follow-default choice, which for the size is
  the rest of the device), the type and the active flag. The settle delays (\<open>usleep\<close>)
  have no effect on the table and are left out.
\<close>

datatype start_spec = StartSector u64 | StartFollowDefault
datatype size_spec = SizeSectors u64 | EndFollowDefault
datatype parttype = MbrCode nat | GptGuid string

record part_row =
  partno :: int
  row_start :: start_spec
  row_size :: size_spec
  row_type :: "parttype option"
  row_active :: bool

record disk =
  disklabel :: "partition_style_t option"
  rows :: "part_row list"
  sector_size :: u64

text \<open>Each libfdisk call that the source checks can fail; the fault names the call.\<close>

datatype fdisk_fault =
  NoFault | Fail_new_context | Fail_assign_device | Fail_get_label
  | Fail_create_disklabel | Fail_new_partition | Fail_add_partition
  | Fail_write_disklabel

record partition_entry_t =
  pe_start :: u64
  pe_size :: u64
  pe_fs_type :: fs_type_t
  pe_bootable :: bool
  pe_label :: "string option"

definition partition_create_table ::
  "fdisk_fault \<Rightarrow> partition_style_t \<Rightarrow> disk \<Rightarrow> bool \<times> disk" where
  "partition_create_table flt style d =
     (if flt = Fail_new_context then (False, d)
      else if flt = Fail_assign_device then (False, d)
      else if flt = Fail_get_label then (False, d)
      else if flt = Fail_create_disklabel then (False, d)
      else if flt = Fail_write_disklabel then (False, d)
      else (True, d\<lparr>disklabel := Some style, rows := []\<rparr>))"

text \<open>
  The body shared by \<open>partition_add\<close> and \<open>partition_add_efi\<close>; they differ only in
  the type they look up, given here as the pair (MBR code, GPT GUID).
\<close>

definition add_row ::
  "fdisk_fault \<Rightarrow> nat \<times> string \<Rightarrow> partition_entry_t \<Rightarrow> int \<Rightarrow> disk \<Rightarrow> bool \<times> disk" where
  "add_row flt ty part part_number d =
     (if flt = Fail_new_context then (False, d)
      else if flt = Fail_assign_device then (False, d)
      else if flt = Fail_new_partition then (False, d)
      else
        let st = (if pe_start part > 0 then StartSector (pe_start part div sector_size d)
                  else StartFollowDefault);
            sz = (if pe_size part > 0 then SizeSectors (pe_size part div sector_size d)
                  else EndFollowDefault);
            tp = (if disklabel d = Some PARTITION_STYLE_MBR then Some (MbrCode (fst ty))
                  else if disklabel d = Some PARTITION_STYLE_GPT then Some (GptGuid (snd ty))
                  else None)
        in if flt = Fail_add_partition then (False, d)
           else
             let act = (pe_bootable part \<and> disklabel d = Some PARTITION_STYLE_MBR)
             in if flt = Fail_write_disklabel then (False, d)
                else (True, d\<lparr>rows := rows d @
                        [\<lparr>partno = part_number - 1, row_start = st, row_size = sz,
                          row_type = tp, row_active = act\<rparr>]\<rparr>))"

definition partition_add ::
  "fdisk_fault \<Rightarrow> partition_entry_t \<Rightarrow> int \<Rightarrow> disk \<Rightarrow> bool \<times> disk" where
  "partition_add flt part part_number d =
     add_row flt (get_mbr_type (pe_fs_type part), get_gpt_type (pe_fs_type part))
       part part_number d"

definition partition_add_efi ::
  "fdisk_fault \<Rightarrow> partition_entry_t \<Rightarrow> int \<Rightarrow> disk \<Rightarrow> bool \<times> disk" where
  "partition_add_efi flt part part_number d =
     add_row flt (MBR_TYPE_EFI, GPT_TYPE_EFI) part part_number d"

subsection \<open>The unprivileged path: an sfdisk script run through the launcher\<close>

text \<open>
  When the caller is not root the layout is written by \<open>sfdisk\<close>, fed a script on its
  standard input. The script is kept as data: the label line and one line per partition
  with its size field, its type field and the bootable marker. In an sfdisk script the
  type \<open>U\<close> is the EFI System type and the size \<open>256M\<close> is 256 MiB; an empty size field
  takes the rest of the device.
\<close>

record sfdisk_line =
  sf_size :: string
  sf_type :: string
  sf_boot :: bool

record sfdisk_script =
  sf_label :: string
  sf_lines :: "sfdisk_line list"

text \<open>
  The environment of one layout operation: whether the caller is root, whether
  \<open>sfdisk\<close> is on the path, the exit code of \<open>run_privileged\<close>, and the fault of the
  \<open>n\<close>-th libfdisk-using call of the operation.
\<close>

record part_env =
  is_root :: bool
  sfdisk_exists :: bool
  run_privileged_rc :: int
  fault :: "nat \<Rightarrow> fdisk_fault"

text \<open>
  The result of a layout operation: the returned flag, the device's table when libfdisk
  wrote it, and the script handed to \<open>sfdisk\<close> when the launcher ran.
\<close>

record layout_result =
  ok :: bool
  table :: disk
  script :: "sfdisk_script option"

definition hex2 :: "nat \<Rightarrow> string" where
  "hex2 n = [''0123456789ABCDEF'' ! ((n div 16) mod 16), ''0123456789ABCDEF'' ! (n mod 16)]"

definition partition_create_single_privileged ::
  "part_env \<Rightarrow> partition_style_t \<Rightarrow> fs_type_t \<Rightarrow> disk \<Rightarrow> layout_result" where
  "partition_create_single_privileged env style fs_type d =
     (if \<not> sfdisk_exists env then \<lparr>ok = False, table = d, script = None\<rparr>
      else
        let label = (if style = PARTITION_STYLE_GPT then ''gpt'' else ''dos'');
            boot_flag = (style = PARTITION_STYLE_MBR);
            type = (if style = PARTITION_STYLE_GPT then get_gpt_type fs_type
                    else hex2 (get_mbr_type fs_type));
            sc = \<lparr>sf_label = label,
                  sf_lines = [\<lparr>sf_size = [], sf_type = type, sf_boot = boot_flag\<rparr>]\<rparr>
        in \<lparr>ok = (run_privileged_rc env = 0), table = d, script = Some sc\<rparr>)"

definition partition_create_bootable_privileged ::
  "part_env \<Rightarrow> partition_style_t \<Rightarrow> target_type_t \<Rightarrow> fs_type_t \<Rightarrow> disk \<Rightarrow> layout_result" where
  "partition_create_bootable_privileged env style target fs_type d =
     (if \<not> sfdisk_exists env then \<lparr>ok = False, table = d, script = None\<rparr>
      else if style \<noteq> PARTITION_STYLE_GPT \<or> target = TARGET_BIOS
        then partition_create_single_privileged env style fs_type d
      else
        let data_type = get_gpt_type fs_type;
            sc = \<lparr>sf_label = ''gpt'',
                  sf_lines = [\<lparr>sf_size = ''256M'', sf_type = ''U'', sf_boot = False\<rparr>,
                              \<lparr>sf_size = [], sf_type = data_type, sf_boot = False\<rparr>]\<rparr>
        in \<lparr>ok = (run_privileged_rc env = 0), table = d, script = Some sc\<rparr>)"

subsection \<open>Layout operations\<close>

definition partition_create_single ::
  "part_env \<Rightarrow> partition_style_t \<Rightarrow> fs_type_t \<Rightarrow> string option \<Rightarrow> disk \<Rightarrow> layout_result" where
  "partition_create_single env style fs_type label d =
     (if \<not> is_root env then partition_create_single_privileged env style fs_type d
      else
        case partition_create_table (fault env 0) style d of
          (False, d1) \<Rightarrow> \<lparr>ok = False, table = d1, script = None\<rparr>
        | (True, d1) \<Rightarrow>
            let part = \<lparr>pe_start = 0, pe_size = 0, pe_fs_type = fs_type,
                        pe_bootable = True, pe_label = label\<rparr>;
                r = partition_add (fault env 1) part 1 d1
            in \<lparr>ok = fst r, table = snd r, script = None\<rparr>)"

definition partition_create_bootable ::
  "part_env \<Rightarrow> partition_style_t \<Rightarrow> target_type_t \<Rightarrow> fs_type_t \<Rightarrow> string option
     \<Rightarrow> disk \<Rightarrow> layout_result" where
  "partition_create_bootable env style target fs_type label d =
     (if \<not> is_root env then partition_create_bootable_privileged env style target fs_type d
      else if (target = TARGET_UEFI \<or> target = TARGET_BIOS_UEFI)
              \<and> style = PARTITION_STYLE_GPT then
        (case partition_create_table (fault env 0) style d of
           (False, d1) \<Rightarrow> \<lparr>ok = False, table = d1, script = None\<rparr>
         | (True, d1) \<Rightarrow>
             let esp = \<lparr>pe_start = 0, pe_size = 256 * 1024 * 1024, pe_fs_type = FS_FAT32,
                        pe_bootable = False, pe_label = Some ''EFI''\<rparr>
             in (case partition_add (fault env 1) esp 1 d1 of
                   (False, d2) \<Rightarrow> \<lparr>ok = False, table = d2, script = None\<rparr>
                 | (True, d2) \<Rightarrow>
                     let main_part = \<lparr>pe_start = 0, pe_size = 0, pe_fs_type = fs_type,
                                       pe_bootable = False, pe_label = label\<rparr>;
                         r = partition_add (fault env 2) main_part 2 d2
                     in \<lparr>ok = fst r, table = snd r, script = None\<rparr>))
      else partition_create_single env style fs_type label d)"

subsection \<open>Partition device paths\<close>

text \<open>
  \<open>strrchr(s, c)\<close> followed by \<open>+ 1\<close>: the text after the last occurrence of \<open>c\<close>, or
  \<open>None\<close> when \<open>c\<close> does not occur.
\<close>

fun strrchr_after :: "char \<Rightarrow> string \<Rightarrow> string option" where
  "strrchr_after c [] = None"
| "strrchr_after c (x # xs) =
     (case strrchr_after c xs of
        Some t \<Rightarrow> Some t
      | None \<Rightarrow> if x = c then Some xs else None)"

definition isdigit :: "char \<Rightarrow> bool" where
  "isdigit c = (c \<in> set ''0123456789'')"

text \<open>\<open>%d\<close> of \<open>sprintf\<close>: the decimal digits, with a minus sign for a negative number.\<close>

function show_nat :: "nat \<Rightarrow> string" where
  "show_nat n =
     (if n < 10 then [''0123456789'' ! n]
      else show_nat (n div 10) @ [''0123456789'' ! (n mod 10)])"
  by pat_completeness auto
termination
  by (relation "measure id") auto

declare show_nat.simps [simp del]

definition show_int :: "int \<Rightarrow> string" where
  "show_int i = (if i < 0 then CHR ''-'' # show_nat (nat (- i)) else show_nat (nat i))"

definition device_base :: "string \<Rightarrow> string" where
  "device_base device =
     (case strrchr_after CHR ''/'' device of Some b \<Rightarrow> b | None \<Rightarrow> device)"

definition needs_p :: "string \<Rightarrow> bool" where
  "needs_p base =
     (if strncmp_eq base ''nvme'' 4 \<or> strncmp_eq base ''mmcblk'' 6 \<or> strncmp_eq base ''loop'' 4
        then True
      else if length base > 0 \<and> isdigit (base ! (length base - 1)) then True
      else False)"

text \<open>
  The number that a string of decimal digits denotes, read from the left; it is used to
  say what the \<open>%d\<close> conversion prints.
\<close>

definition digit_value :: "char \<Rightarrow> nat" where
  "digit_value c = of_char c - 48"

definition dec_value :: "string \<Rightarrow> nat" where
  "dec_value s = foldl (\<lambda>v c. 10 * v + digit_value c) 0 s"

text \<open>\<open>malloc_ok\<close> is whether the allocation of the result succeeds.\<close>

definition partition_get_path :: "bool \<Rightarrow> string \<Rightarrow> int \<Rightarrow> string option" where
  "partition_get_path malloc_ok device part_number =
     (if \<not> malloc_ok then None
      else if needs_p (device_base device)
        then Some (device @ ''p'' @ show_int part_number)
      else Some (device @ show_int part_number))"

section \<open>Format dispatcher (format.c)\<close>

record mkfs_info_t =
  mk_type :: fs_type_t
  mk_command :: string
  mk_label_opt :: "string option"
  mk_cluster_opt :: "string option"

definition mkfs_commands :: "mkfs_info_t list" where
  "mkfs_commands =
     [\<lparr>mk_type = FS_FAT16, mk_command = ''mkfs.fat'', mk_label_opt = Some ''-n'',
       mk_cluster_opt = Some ''-s''\<rparr>,
      \<lparr>mk_type = FS_FAT32, mk_command = ''mkfs.fat'', mk_label_opt = Some ''-n'',
       mk_cluster_opt = Some ''-s''\<rparr>,
      \<lparr>mk_type = FS_NTFS, mk_command = ''mkfs.ntfs'', mk_label_opt = Some ''-L'',
       mk_cluster_opt = Some ''-c''\<rparr>,
      \<lparr>mk_type = FS_EXFAT, mk_command = ''mkfs.exfat'', mk_label_opt = Some ''-L'',
       mk_cluster_opt = Some ''-s''\<rparr>,
      \<lparr>mk_type = FS_EXT2, mk_command = ''mkfs.ext2'', mk_label_opt = Some ''-L'',
       mk_cluster_opt = Some ''-b''\<rparr>,
      \<lparr>mk_type = FS_EXT3, mk_command = ''mkfs.ext3'', mk_label_opt = Some ''-L'',
       mk_cluster_opt = Some ''-b''\<rparr>,
      \<lparr>mk_type = FS_EXT4, mk_command = ''mkfs.ext4'', mk_label_opt = Some ''-L'',
       mk_cluster_opt = Some ''-b''\<rparr>,
      \<lparr>mk_type = FS_UDF, mk_command = ''mkudffs'', mk_label_opt = Some ''-l'',
       mk_cluster_opt = None\<rparr>]"

fun mkfs_lookup :: "mkfs_info_t list \<Rightarrow> fs_type_t \<Rightarrow> mkfs_info_t option" where
  "mkfs_lookup [] t = None"
| "mkfs_lookup (i # is) t = (if mk_type i = t then Some i else mkfs_lookup is t)"

definition get_mkfs_info :: "fs_type_t \<Rightarrow> mkfs_info_t option" where
  "get_mkfs_info t = mkfs_lookup mkfs_commands t"

definition format_get_mkfs_command :: "fs_type_t \<Rightarrow> string option" where
  "format_get_mkfs_command t = map_option mk_command (get_mkfs_info t)"

text \<open>
  The environment of one \<open>format_partition\<close> call: which commands \<open>which\<close> finds,
  whether the argument vector can be allocated, whether \<open>fork\<close> succeeds, and what the
  successive \<open>waitpid(pid, &status, WNOHANG)\<close> calls return.
\<close>

datatype wstatus = Exited nat | Signaled nat

text \<open>
  \<open>waitpid\<close> with \<open>WNOHANG\<close> returns 0 while the child runs, the pid with the status
  once it has ended, or -1, in which case \<open>status\<close> keeps whatever it held.
\<close>

datatype waitpid_result = StillRunning | Reaped wstatus | WaitError wstatus

record format_env =
  which_finds :: "string \<Rightarrow> bool"
  calloc_ok :: bool
  fork_ok :: bool
  waits :: "waitpid_result list"

definition format_is_supported :: "format_env \<Rightarrow> fs_type_t \<Rightarrow> bool" where
  "format_is_supported env t =
     (case format_get_mkfs_command t of
        None \<Rightarrow> False
      | Some cmd \<Rightarrow> which_finds env cmd)"

record format_options_t =
  fo_fs_type :: fs_type_t
  fo_label :: "string option"
  fo_cluster_size :: "32 word"
  fo_quick_format :: bool

definition build_mkfs_args ::
  "format_env \<Rightarrow> string \<Rightarrow> format_options_t \<Rightarrow> string list option" where
  "build_mkfs_args env partition_path opts =
     (case get_mkfs_info (fo_fs_type opts) of
        None \<Rightarrow> None
      | Some info \<Rightarrow>
          if \<not> calloc_ok env then None
          else Some
            ([mk_command info]
             @ (if fo_fs_type opts = FS_FAT16 then [''-F'', ''16'']
                else if fo_fs_type opts = FS_FAT32 then [''-F'', ''32'']
                else [])
             @ (if fo_fs_type opts = FS_NTFS \<and> fo_quick_format opts then [''-Q''] else [])
             @ (case (fo_label opts, mk_label_opt info) of
                  (Some l, Some lo) \<Rightarrow> if l \<noteq> [] then [lo, l] else []
                | _ \<Rightarrow> [])
             @ (case mk_cluster_opt info of
                  Some co \<Rightarrow>
                    if fo_cluster_size opts > 0 then
                      [co,
                       if fo_fs_type opts = FS_FAT16 \<or> fo_fs_type opts = FS_FAT32
                       then show_nat (unat (fo_cluster_size opts div 512))
                       else show_nat (unat (fo_cluster_size opts))]
                    else []
                | None \<Rightarrow> [])
             @ [partition_path]))"

text \<open>
  A call of the progress callback: the fraction and the message. The fractions are
  \<open>double\<close>s in the source; the model takes the real numbers they stand for.
\<close>

type_synonym progress_event = "real \<times> string"

text \<open>
  The polling loop of \<open>format_partition\<close>. \<open>elapsed\<close> counts the polls that found the
  child running. The loop has no bound of its own: when the observations run out
  before the child is seen to end, the result is \<open>None\<close>.
\<close>

fun format_wait ::
  "bool \<Rightarrow> int \<Rightarrow> waitpid_result list \<Rightarrow> (progress_event list \<times> wstatus) option" where
  "format_wait progress elapsed [] = None"
| "format_wait progress elapsed (Reaped st # ws) = Some ([], st)"
| "format_wait progress elapsed (WaitError st # ws) = Some ([], st)"
| "format_wait progress elapsed (StillRunning # ws) =
     (let elapsed' = elapsed + 1;
          evs = (if progress
                 then [(if elapsed' < 50 then real_of_int elapsed' * 0.02 else 0.99,
                        ''Formatting...'')]
                 else [])
      in case format_wait progress elapsed' ws of
           None \<Rightarrow> None
         | Some (es, st) \<Rightarrow> Some (evs @ es, st))"

text \<open>
  The command line that \<open>format_partition\<close> builds for its log: the arguments are
  appended with \<open>strcat\<close> to \<open>char cmd_str[1024]\<close>, a space before each but the
  first, with no check of the length.
\<close>

fun cmd_str_of :: "string list \<Rightarrow> string" where
  "cmd_str_of [] = []"
| "cmd_str_of [a] = a"
| "cmd_str_of (a # b # as) = a @ '' '' @ cmd_str_of (b # as)"

definition CMD_STR_SIZE :: nat where "CMD_STR_SIZE = 1024"

text \<open>
  What a call of \<open>format_partition\<close> comes to: it returns a flag after the callback's
  calls in order; or the joined command line with its terminator does not fit
  \<open>cmd_str\<close> and \<open>strcat\<close> writes past the buffer, before any callback and before
  \<open>fork\<close>, after which the behaviour of the program is undefined; or the polling loop
  never sees the child end.
\<close>

datatype format_outcome =
  Returned bool "progress_event list"
  | Cmd_str_overflow
  | Never_returns

text \<open>\<open>format_partition\<close>: \<open>progress\<close> says whether a callback was passed.\<close>

definition format_partition ::
  "format_env \<Rightarrow> string option \<Rightarrow> format_options_t option \<Rightarrow> bool \<Rightarrow> format_outcome" where
  "format_partition env partition_path options progress =
     (case (partition_path, options) of
        (Some pp, Some opts) \<Rightarrow>
          if \<not> format_is_supported env (fo_fs_type opts) then Returned False []
          else
            (case build_mkfs_args env pp opts of
               None \<Rightarrow> Returned False []
             | Some args \<Rightarrow>
                 if length (cmd_str_of args) \<ge> CMD_STR_SIZE then Cmd_str_overflow
                 else
                   let ev0 = (if progress then [(0.0, ''Starting format...'')] else [])
                   in if \<not> fork_ok env then Returned False ev0
                      else
                        (case format_wait progress 0 (waits env) of
                           None \<Rightarrow> Never_returns
                         | Some (es, st) \<Rightarrow>
                             let ev1 = (if progress then [(1.0, ''Complete'')] else [])
                             in Returned (st = Exited 0) (ev0 @ es @ ev1)))
      | _ \<Rightarrow> Returned False [])"

definition format_sync ::
  "format_env \<Rightarrow> string option \<Rightarrow> fs_type_t \<Rightarrow> string option \<Rightarrow> 32 word
     \<Rightarrow> format_outcome" where
  "format_sync env partition_path fs_type label cluster_size =
     format_partition env partition_path
       (Some \<lparr>fo_fs_type = fs_type, fo_label = label, fo_cluster_size = cluster_size,
              fo_quick_format = True\<rparr>)
       False"

section \<open>Raw image writer (iso\_writer.c)\<close>

subsection \<open>The device's sectors-written counter\<close>

text \<open>
  One attempt to read \<open>/sys/block/<name>/stat\<close>: \<open>fopen\<close> fails, or \<open>fscanf\<close>
  converts the leading fields it can (at most eight); \<open>Fields fs\<close> holds the converted
  values in order, so \<open>fscanf\<close> returns \<open>length fs\<close>.
\<close>

datatype stat_read = OpenFailed | Fields "u64 list"

definition get_device_sectors_written :: "string \<Rightarrow> stat_read \<Rightarrow> u64" where
  "get_device_sectors_written device_path rd =
     (case strrchr_after CHR ''/'' device_path of
        None \<Rightarrow> 0
      | Some devname \<Rightarrow>
          (case rd of
             OpenFailed \<Rightarrow> 0
           | Fields fs \<Rightarrow> if length fs \<ge> 7 then fs ! 6 else 0))"

text \<open>
  The byte count of one poll tick, as each polling loop computes it: the difference to the
  baseline and the product with 512 are 64-bit unsigned and wrap around; the result is
  capped at the image size.
\<close>

definition bytes_written_of :: "u64 \<Rightarrow> u64 \<Rightarrow> u64 \<Rightarrow> u64" where
  "bytes_written_of baseline_sectors iso_size current_sectors =
     (let delta_sectors = current_sectors - baseline_sectors;
          bytes_written = delta_sectors * 512
      in if bytes_written > iso_size then iso_size else bytes_written)"

subsection \<open>Observations and effects\<close>

text \<open>
  What one iteration of a polling loop observes: whether another thread calls
  \<open>iso_writer_cancel\<close> during the iteration, after the worker has read the
  cancellation flag and before it calls \<open>waitpid\<close> (only the writer thread has such a
  flag); what \<open>waitpid\<close> with \<open>WNOHANG\<close> returns, and whether \<open>errno\<close> is \<open>EINTR\<close>
  when it returns -1; the read of the stat file; and the monotonic clock in seconds.
\<close>

record tick =
  cancel_call :: bool
  wait :: waitpid_result
  eintr :: bool
  stat :: stat_read
  now :: real

text \<open>
  The calls that leave the writer, in the order they are made. \<open>SetState\<close> is an
  assignment to the writer's state field; \<open>WaitExit\<close> is the blocking \<open>waitpid\<close> of
  the cancelled path, taken to return; \<open>CancelCalled s\<close> marks a call of
  \<open>iso_writer_cancel\<close> by another thread and records the state the writer was in.
\<close>

datatype effect =
  Progress u64 u64 real
  | CompleteCb write_state_t string
  | SetState write_state_t
  | Kill int nat
  | WaitExit int
  | Sync
  | CancelCalled write_state_t

definition SIGTERM :: nat where "SIGTERM = 15"

text \<open>
  The environment of one write: whether \<open>stat\<close> of the image succeeds and the size it
  reports, the read of the stat file before the copy starts, whether \<open>pipe\<close> succeeds,
  the result of \<open>fork\<close> (-1 on failure, else the child's pid), whether the thread can
  be created, the clock at the start, whether \<open>iso_writer_cancel\<close> is called after the
  thread has set the state to Writing and before the child's pid is stored, and the
  ticks of the polling loop.
\<close>

record write_env =
  stat_ok :: bool
  st_size :: u64
  baseline_stat :: stat_read
  pipe_ok :: bool
  fork_result :: int
  pthread_create_ok :: bool
  start_time :: real
  cancel_before_pid :: bool
  ticks :: "tick list"

text \<open>The rate of one tick and the updated \<open>last_bytes\<close> and \<open>last_time\<close>.\<close>

definition speed_of :: "real \<Rightarrow> real \<Rightarrow> u64 \<Rightarrow> u64 \<Rightarrow> real \<times> u64 \<times> real" where
  "speed_of t_now last_time bytes_written last_bytes =
     (let elapsed = t_now - last_time
      in if elapsed \<ge> 0.25 \<and> bytes_written > last_bytes
         then (real (unat (bytes_written - last_bytes)) / elapsed / (1024.0 * 1024.0),
               bytes_written, t_now)
         else (0, last_bytes, last_time))"

subsection \<open>The synchronous writer\<close>

text \<open>
  The loop of \<open>iso_write_sync\<close>. It ends only when \<open>waitpid\<close> returns the pid; when
  the ticks run out before that the result is \<open>None\<close>.
\<close>

fun iso_write_sync_loop ::
  "bool \<Rightarrow> string \<Rightarrow> u64 \<Rightarrow> u64 \<Rightarrow> real \<Rightarrow> u64 \<Rightarrow> tick list
     \<Rightarrow> (bool \<times> effect list) option" where
  "iso_write_sync_loop progress_cb device_path iso_size baseline_sectors last_time last_bytes []
     = None"
| "iso_write_sync_loop progress_cb device_path iso_size baseline_sectors last_time last_bytes
     (t # ts) =
     (case wait t of
        Reaped st \<Rightarrow>
          Some (st = Exited 0,
                Sync # (if progress_cb then [Progress iso_size iso_size 0] else []))
      | _ \<Rightarrow>
          let current_sectors = get_device_sectors_written device_path (stat t);
              bytes_written = bytes_written_of baseline_sectors iso_size current_sectors
          in (case speed_of (now t) last_time bytes_written last_bytes of
                (speed, last_bytes', last_time') \<Rightarrow>
                  let ev = (if progress_cb then [Progress bytes_written iso_size speed] else [])
                  in (case iso_write_sync_loop progress_cb device_path iso_size
                             baseline_sectors last_time' last_bytes' ts of
                        None \<Rightarrow> None
                      | Some (r, es) \<Rightarrow> Some (r, ev @ es))))"

definition iso_write_sync ::
  "write_env \<Rightarrow> string \<Rightarrow> string \<Rightarrow> bool \<Rightarrow> (bool \<times> effect list) option" where
  "iso_write_sync env iso_path device_path progress_cb =
     (if \<not> stat_ok env then Some (False, [])
      else
        let iso_size = st_size env;
            baseline_sectors = get_device_sectors_written device_path (baseline_stat env)
        in if fork_result env = -1 then Some (False, [])
           else iso_write_sync_loop progress_cb device_path iso_size baseline_sectors
                  (start_time env) 0 (ticks env))"

subsection \<open>The writer thread\<close>

record iso_writer =
  iso_path :: "string option"
  device_path :: "string option"
  iso_size :: u64
  progress_cb :: bool
  complete_cb :: bool
  state :: write_state_t
  dd_pid :: int
  cancel_requested :: bool
  thread_running :: bool

definition iso_writer_new :: iso_writer where
  "iso_writer_new =
     \<lparr>iso_path = None, device_path = None, iso_size = 0, progress_cb = False,
      complete_cb = False, state = WRITE_STATE_IDLE, dd_pid = -1,
      cancel_requested = False, thread_running = False\<rparr>"

text \<open>\<open>iso_writer_cancel\<close>, run under the writer's mutex by another thread.\<close>

definition iso_writer_cancel :: "iso_writer \<Rightarrow> iso_writer \<times> effect list" where
  "iso_writer_cancel writer =
     (writer\<lparr>cancel_requested := True\<rparr>,
      CancelCalled (state writer)
      # (if dd_pid writer > 0 then [Kill (dd_pid writer) SIGTERM] else []))"

definition writer_error :: "iso_writer \<Rightarrow> iso_writer \<times> effect list" where
  "writer_error writer =
     (writer\<lparr>state := WRITE_STATE_ERROR, dd_pid := -1, thread_running := False\<rparr>,
      SetState WRITE_STATE_ERROR
      # (if complete_cb writer then [CompleteCb WRITE_STATE_ERROR ''Write failed''] else []))"

definition writer_success :: "iso_writer \<Rightarrow> iso_writer \<times> effect list" where
  "writer_success writer =
     (writer\<lparr>state := WRITE_STATE_COMPLETE, dd_pid := -1, thread_running := False\<rparr>,
      [SetState WRITE_STATE_SYNCING, Sync, SetState WRITE_STATE_COMPLETE]
      @ (if progress_cb writer then [Progress (iso_size writer) (iso_size writer) 0] else [])
      @ (if complete_cb writer
         then [CompleteCb WRITE_STATE_COMPLETE ''Write complete''] else []))"

definition writer_cancelled :: "iso_writer \<Rightarrow> int \<Rightarrow> iso_writer \<times> effect list" where
  "writer_cancelled writer pid =
     (writer\<lparr>state := WRITE_STATE_CANCELLED, dd_pid := -1, thread_running := False\<rparr>,
      [WaitExit pid, SetState WRITE_STATE_CANCELLED]
      @ (if complete_cb writer
         then [CompleteCb WRITE_STATE_CANCELLED ''Write cancelled''] else []))"

text \<open>
  The \<open>while (1)\<close> loop of \<open>writer_thread\<close>, with the three ways out (the cancelled
  path after \<open>break\<close>, \<open>success\<close> and \<open>error\<close>) folded in. When the ticks run out
  before the loop is left the result is \<open>None\<close>.
\<close>

fun writer_loop ::
  "iso_writer \<Rightarrow> int \<Rightarrow> string \<Rightarrow> u64 \<Rightarrow> real \<Rightarrow> u64 \<Rightarrow> tick list
     \<Rightarrow> (iso_writer \<times> effect list) option" where
  "writer_loop writer pid dev baseline_sectors last_time last_bytes [] = None"
| "writer_loop writer pid dev baseline_sectors last_time last_bytes (t # ts) =
     (if cancel_requested writer then
        (case writer_cancelled writer pid of
           (w', es) \<Rightarrow> Some (w', Kill pid SIGTERM # es))
      else
        case (if cancel_call t then iso_writer_cancel writer else (writer, [])) of
          (w1, ec) \<Rightarrow>
            (case (case wait t of
                     Reaped st \<Rightarrow> Some (st = Exited 0)
                   | WaitError st \<Rightarrow> if eintr t then None else Some False
                   | StillRunning \<Rightarrow> None) of
               Some good \<Rightarrow>
                 (case (if good then writer_success w1 else writer_error w1) of
                    (w', es) \<Rightarrow> Some (w', ec @ es))
             | None \<Rightarrow>
                 let current_sectors = get_device_sectors_written dev (stat t);
                     bytes_written =
                       bytes_written_of baseline_sectors (iso_size w1) current_sectors
                 in (case speed_of (now t) last_time bytes_written last_bytes of
                       (speed, last_bytes', last_time') \<Rightarrow>
                         let ev = (if progress_cb w1
                                   then [Progress bytes_written (iso_size w1) speed] else [])
                         in (case writer_loop w1 pid dev baseline_sectors last_time'
                                    last_bytes' ts of
                               None \<Rightarrow> None
                             | Some (w', es) \<Rightarrow> Some (w', ec @ ev @ es)))))"

text \<open>
  \<open>writer_thread\<close>. The result is the writer as the thread leaves it and the calls
  made, or \<open>None\<close> when the thread does not return (the loop never ends, or the device
  path is \<open>NULL\<close>).
\<close>

definition writer_thread :: "write_env \<Rightarrow> iso_writer \<Rightarrow> (iso_writer \<times> effect list) option" where
  "writer_thread env writer =
     (case device_path writer of
        None \<Rightarrow> None
      | Some dev \<Rightarrow>
          let w1 = writer\<lparr>state := WRITE_STATE_WRITING\<rparr>;
              baseline_sectors = get_device_sectors_written dev (baseline_stat env)
          in case (if cancel_before_pid env then iso_writer_cancel w1 else (w1, [])) of
               (w2, ec) \<Rightarrow>
                 if \<not> pipe_ok env \<or> fork_result env = -1 then
                   (case writer_error w2 of
                      (w', es) \<Rightarrow> Some (w', SetState WRITE_STATE_WRITING # ec @ es))
                 else
                   let pid = fork_result env;
                       w3 = w2\<lparr>dd_pid := pid\<rparr>
                   in (case writer_loop w3 pid dev baseline_sectors (start_time env) 0
                              (ticks env) of
                         None \<Rightarrow> None
                       | Some (w', es) \<Rightarrow>
                           Some (w', SetState WRITE_STATE_WRITING # ec @ es)))"

text \<open>
  \<open>iso_writer_start\<close> for a writer that exists, followed by the detached thread's run.
  The flag is what \<open>iso_writer_start\<close> returns.
\<close>

definition iso_writer_start ::
  "write_env \<Rightarrow> iso_writer \<Rightarrow> string option \<Rightarrow> string option \<Rightarrow> bool \<Rightarrow> bool
     \<Rightarrow> (bool \<times> iso_writer \<times> effect list) option" where
  "iso_writer_start env writer ip dp pcb ccb =
     (if ip = None \<or> dp = None then Some (False, writer, [])
      else if thread_running writer then Some (False, writer, [])
      else if \<not> stat_ok env then Some (False, writer, [])
      else
        let w1 = writer\<lparr>iso_path := ip, device_path := dp, iso_size := st_size env,
                        progress_cb := pcb, complete_cb := ccb,
                        cancel_requested := False, thread_running := True\<rparr>
        in if \<not> pthread_create_ok env
           then Some (False, w1\<lparr>thread_running := False\<rparr>, [])
           else (case writer_thread env w1 of
                   None \<Rightarrow> None
                 | Some (w', es) \<Rightarrow> Some (True, w', es)))"

text \<open>
  A tick on which the writer thread's loop goes on polling: \<open>waitpid\<close> returned 0, or
  -1 with \<open>EINTR\<close>.
\<close>

definition copy_running :: "tick \<Rightarrow> bool" where
  "copy_running t =
     (case wait t of StillRunning \<Rightarrow> True | WaitError st \<Rightarrow> eintr t | Reaped st \<Rightarrow> False)"

text \<open>The sector count that a tick's read of the stat file yields.\<close>

definition sample_of :: "string \<Rightarrow> tick \<Rightarrow> u64" where
  "sample_of dev t = get_device_sectors_written dev (stat t)"

text \<open>The byte counts that a run reports through the progress callback, in order.\<close>

fun progress_bytes :: "effect list \<Rightarrow> u64 list" where
  "progress_bytes [] = []"
| "progress_bytes (Progress b t s # es) = b # progress_bytes es"
| "progress_bytes (e # es) = progress_bytes es"

text \<open>
  The calls that end the cancelled path, and what it means for a trace to hold no flush
  and no step towards completion.
\<close>

definition cancelled_tail :: "iso_writer \<Rightarrow> int \<Rightarrow> effect list" where
  "cancelled_tail w pid =
     [Kill pid SIGTERM, WaitExit pid, SetState WRITE_STATE_CANCELLED]
     @ (if complete_cb w then [CompleteCb WRITE_STATE_CANCELLED ''Write cancelled''] else [])"

definition no_flush :: "effect list \<Rightarrow> bool" where
  "no_flush tr = (Sync \<notin> set tr \<and> SetState WRITE_STATE_SYNCING \<notin> set tr
                  \<and> SetState WRITE_STATE_COMPLETE \<notin> set tr)"

section \<open>Device enumeration (device.c)\<close>

text \<open>
  The operating system as the enumeration and the start handler see it: the entries of
  \<open>/proc/mounts\<close> as pairs of \<open>mnt_fsname\<close> and \<open>mnt_dir\<close> (\<open>None\<close> when
  \<open>setmntent\<close> fails), the block devices that udev lists, whether an archive tool is
  installed, and whether \<open>umount2\<close> and the fallback \<open>umount\<close> command succeed on a
  mountpoint.
\<close>

record udev_dev =
  ud_sysname :: "string option"
  ud_devnode :: string
  ud_id_bus :: "string option"
  ud_size_sectors :: u64

record os_state =
  proc_mounts :: "(string \<times> string) list option"
  udev_devices :: "udev_dev list"
  iso_extract_is_supported :: bool
  umount2_ok :: "string \<Rightarrow> bool"
  umount_cmd_ok :: "string \<Rightarrow> bool"

text \<open>The loop of \<open>get_mountpoints\<close> over the entries of \<open>/proc/mounts\<close>.\<close>

fun mounts_of_base :: "string \<Rightarrow> (string \<times> string) list \<Rightarrow> string list" where
  "mounts_of_base base [] = []"
| "mounts_of_base base ((fsname, dir) # ents) =
     (let mnt_base = (case strrchr_after CHR ''/'' fsname of Some b \<Rightarrow> b | None \<Rightarrow> fsname)
      in if strncmp_eq mnt_base base (length base)
         then dir # mounts_of_base base ents
         else mounts_of_base base ents)"

text \<open>
  \<open>get_mountpoints\<close>: the array (\<open>NULL\<close> when nothing matched) and the count.
\<close>

definition get_mountpoints :: "os_state \<Rightarrow> string \<Rightarrow> string list option \<times> int" where
  "get_mountpoints os devnode =
     (case proc_mounts os of
        None \<Rightarrow> (None, 0)
      | Some ents \<Rightarrow>
          let base = (case strrchr_after CHR ''/'' devnode of
                        Some b \<Rightarrow> b | None \<Rightarrow> devnode);
              ms = mounts_of_base base ents
          in (if ms = [] then None else Some ms, int (length ms)))"

definition MAX_DEVICES :: nat where "MAX_DEVICES = 64"

text \<open>
  The loop of \<open>device_enumerate\<close> over udev's list; \<open>acc\<close> is the list built so far.
  Allocation failures are left out.
\<close>

fun enumerate_scan :: "os_state \<Rightarrow> udev_dev list \<Rightarrow> device_info_t list \<Rightarrow> device_info_t list" where
  "enumerate_scan os [] acc = acc"
| "enumerate_scan os (u # us) acc =
     (if length acc \<ge> MAX_DEVICES then acc
      else
        case ud_sysname u of
          None \<Rightarrow> enumerate_scan os us acc
        | Some devname \<Rightarrow>
            if strncmp_eq devname ''loop'' 4 \<or> strncmp_eq devname ''ram'' 3
               \<or> strncmp_eq devname ''zram'' 4
              then enumerate_scan os us acc
            else if ud_id_bus u \<noteq> Some ''usb'' then enumerate_scan os us acc
            else if has_forbidden_mount (fst (get_mountpoints os (ud_devnode u)))
              then enumerate_scan os us acc
            else enumerate_scan os us
                   (acc @ [\<lparr>dev_name = devname, dev_path = ud_devnode u,
                            dev_size = ud_size_sectors u * 512,
                            mountpoints = fst (get_mountpoints os (ud_devnode u)),
                            mountpoint_count = snd (get_mountpoints os (ud_devnode u))\<rparr>]))"

definition device_enumerate :: "os_state \<Rightarrow> device_info_t list" where
  "device_enumerate os = enumerate_scan os (udev_devices os) []"

section \<open>Job submission (window.c)\<close>

record iso_info_t =
  ii_size :: u64
  ii_is_bootable :: bool
  ii_has_efi :: bool
  ii_is_windows :: bool

text \<open>
  The state of the window that the start handler reads: the selected index of each
  drop-down, the label entry, the device list of the last enumeration, and the chosen
  image with its analysis.
\<close>

record RufusWindow =
  device_dropdown :: nat
  boot_dropdown :: nat
  write_mode_dropdown :: nat
  partition_dropdown :: nat
  target_dropdown :: nat
  fs_dropdown :: nat
  cluster_dropdown :: nat
  label_entry :: string
  devices :: "device_info_t list option"
  win_iso_path :: "string option"
  win_iso_info :: "iso_info_t option"

definition GTK_INVALID_LIST_POSITION :: nat where
  "GTK_INVALID_LIST_POSITION = 4294967295"

record write_op_t =
  op_device_path :: string
  op_iso_path :: "string option"
  op_label :: "string option"
  op_fs_type :: fs_type_t
  op_part_style :: partition_style_t
  op_target :: target_type_t
  op_cluster_size :: "32 word"
  op_write_iso :: bool
  op_iso_extract :: bool

text \<open>
  The calls that a job makes, in order: status lines, the unmount calls of
  \<open>device_unmount\<close>, the confirmation dialog, and the calls of the worker thread.
\<close>

datatype ui_call =
  Set_status string string
  | Umount2 string
  | Umount_cmd string
  | Confirm_dialog string
  | Partition_create_single_efi string partition_style_t "string option"
  | Partition_create_bootable string partition_style_t target_type_t fs_type_t "string option"
  | Partition_create_single string partition_style_t fs_type_t "string option"
  | Format_partition string format_options_t
  | Iso_extract_to_partition "string option" string
  | Iso_write_sync "string option" string

text \<open>The calls that change the target device or its mounts.\<close>

fun destructive :: "ui_call \<Rightarrow> bool" where
  "destructive (Set_status m c) = False"
| "destructive (Confirm_dialog d) = False"
| "destructive _ = True"

text \<open>\<open>device_unmount\<close> for a device that exists: the loop over its mountpoints.\<close>

fun unmount_each :: "os_state \<Rightarrow> string list \<Rightarrow> ui_call list" where
  "unmount_each os [] = []"
| "unmount_each os (m # ms) =
     (if umount2_ok os m then [Umount2 m] else [Umount2 m, Umount_cmd m])
     @ unmount_each os ms"

definition device_unmount :: "os_state \<Rightarrow> device_info_t \<Rightarrow> ui_call list" where
  "device_unmount os dev =
     (case mountpoints dev of None \<Rightarrow> [] | Some ms \<Rightarrow> unmount_each os ms)"

definition target_of_index :: "nat \<Rightarrow> target_type_t" where
  "target_of_index i =
     (if i = 1 then TARGET_UEFI else if i = 2 then TARGET_BIOS_UEFI else TARGET_BIOS)"

definition fs_of_index :: "nat \<Rightarrow> fs_type_t" where
  "fs_of_index i =
     (if i = 0 then FS_FAT32 else if i = 1 then FS_NTFS else if i = 2 then FS_EXFAT
      else if i = 3 then FS_EXT4 else FS_FAT32)"

text \<open>
  \<open>cluster_options[i]\<close> read by \<open>strtoul\<close>; index 0 is the default and index 5 the
  terminating \<open>NULL\<close>. The drop-down offers the indices 0 to 4.
\<close>

definition cluster_of_index :: "nat \<Rightarrow> 32 word" where
  "cluster_of_index i =
     (if i = 1 then 4096 else if i = 2 then 8192 else if i = 3 then 16384
      else if i = 4 then 32768 else 0)"

text \<open>
  \<open>on_start_clicked\<close>: the calls made and, when the confirmation dialog is shown, the
  operation handed to it.
\<close>

definition on_start_clicked :: "RufusWindow \<Rightarrow> os_state \<Rightarrow> ui_call list \<times> write_op_t option" where
  "on_start_clicked self os =
     (case devices self of
        None \<Rightarrow> ([Set_status ''No device selected'' ''status-error''], None)
      | Some devs \<Rightarrow>
          if device_dropdown self = GTK_INVALID_LIST_POSITION
             \<or> device_dropdown self \<ge> length devs
            then ([Set_status ''No device selected'' ''status-error''], None)
          else
            let dev = devs ! device_dropdown self;
                write_iso = (boot_dropdown self = 0 \<and> win_iso_path self \<noteq> None);
                iso_extract = (write_mode_dropdown self = 1)
            in (if write_iso \<and> win_iso_info self = None
                  then ([Set_status ''Please select an ISO image'' ''status-error''], None)
                else
                    let info = win_iso_info self;
                        warn = (if write_iso \<and> \<not> (case info of Some i \<Rightarrow> ii_is_bootable i
                                                      | None \<Rightarrow> True)
                                then [Set_status ''Warning: ISO may not be bootable''
                                        ''status-error'']
                                else []);
                        reject = (\<lambda>msg. (warn @ [Set_status msg ''status-error''], None))
                    in if write_iso
                          \<and> (case info of Some i \<Rightarrow> ii_size i > dev_size dev | None \<Rightarrow> False)
                         then reject ''ISO is larger than the target device''
                       else if write_iso \<and> iso_extract \<and> \<not> iso_extract_is_supported os
                         then reject ''ISO file copy needs xorriso, bsdtar, or 7z''
                       else if write_iso \<and> iso_extract
                               \<and> (case info of Some i \<Rightarrow> ii_is_windows i | None \<Rightarrow> False)
                         then reject ''Windows ISO extraction not supported yet''
                       else if write_iso \<and> iso_extract
                               \<and> \<not> (case info of Some i \<Rightarrow> ii_has_efi i | None \<Rightarrow> True)
                         then reject ''ISO file copy requires UEFI boot files''
                       else if write_iso \<and> iso_extract \<and> target_dropdown self = 0
                         then reject ''ISO file copy requires UEFI target''
                       else if write_iso \<and> iso_extract \<and> fs_dropdown self \<noteq> 0
                         then reject ''ISO file copy requires FAT32''
                       else
                         let um = (if device_is_mounted (Some dev)
                                   then device_unmount os dev else []);
                             full = (\<not> write_iso \<or> iso_extract);
                             op = \<lparr>op_device_path = dev_path dev,
                                   op_iso_path = (if write_iso then win_iso_path self else None),
                                   op_label = (if full then Some (label_entry self) else None),
                                   op_fs_type =
                                     (if write_iso
                                      then (if iso_extract then FS_FAT32 else FS_UNKNOWN)
                                      else fs_of_index (fs_dropdown self)),
                                   op_part_style =
                                     (if full \<and> partition_dropdown self = 1
                                      then PARTITION_STYLE_GPT else PARTITION_STYLE_MBR),
                                   op_target =
                                     (if full then target_of_index (target_dropdown self)
                                      else TARGET_BIOS),
                                   op_cluster_size =
                                     (if full then cluster_of_index (cluster_dropdown self)
                                      else 0),
                                   op_write_iso = write_iso,
                                   op_iso_extract = (write_iso \<and> iso_extract)\<rparr>
                         in (warn @ um @ [Confirm_dialog (dev_path dev)], Some op)))"

text \<open>
  The results of the calls that the worker thread makes; the partition engine, the
  format dispatcher and the writers are modelled in their own sections.
\<close>

record job_env =
  partition_ok :: bool
  path_malloc_ok :: bool
  esp_format_ok :: bool
  format_ok :: bool
  extract_ok :: bool
  write_ok :: bool

text \<open>\<open>write_thread_func\<close>: the success flag and the calls made.\<close>

definition write_thread_func :: "job_env \<Rightarrow> write_op_t \<Rightarrow> bool \<times> ui_call list" where
  "write_thread_func env op =
     (if op_write_iso op then
        (if op_iso_extract op then
           (let c1 = Partition_create_single_efi (op_device_path op) (op_part_style op)
                       (op_label op)
            in if \<not> partition_ok env then (False, [c1])
               else
                 case partition_get_path (path_malloc_ok env) (op_device_path op) 1 of
                   None \<Rightarrow> (False, [c1])
                 | Some pp \<Rightarrow>
                     let c2 = Format_partition pp
                                \<lparr>fo_fs_type = FS_FAT32, fo_label = op_label op,
                                 fo_cluster_size = op_cluster_size op,
                                 fo_quick_format = True\<rparr>
                     in if \<not> format_ok env then (False, [c1, c2])
                        else (extract_ok env,
                              [c1, c2,
                               Iso_extract_to_partition (op_iso_path op) pp]))
         else (write_ok env,
               [Iso_write_sync (op_iso_path op) (op_device_path op)]))
      else
        (let needs_esp = (op_target op \<noteq> TARGET_BIOS \<and> op_part_style op = PARTITION_STYLE_GPT);
             fmt = (\<lambda>pp. Format_partition pp
                            \<lparr>fo_fs_type = op_fs_type op, fo_label = op_label op,
                             fo_cluster_size = op_cluster_size op, fo_quick_format = True\<rparr>)
         in if needs_esp then
              (let c1 = Partition_create_bootable (op_device_path op) (op_part_style op)
                          (op_target op) (op_fs_type op) (op_label op)
               in if \<not> partition_ok env then (False, [c1])
                  else
                    case (partition_get_path (path_malloc_ok env) (op_device_path op) 1,
                          partition_get_path (path_malloc_ok env) (op_device_path op) 2) of
                      (Some esp_path, Some pp) \<Rightarrow>
                        let c2 = Format_partition esp_path
                                   \<lparr>fo_fs_type = FS_FAT32, fo_label = Some ''EFI'',
                                    fo_cluster_size = 0, fo_quick_format = True\<rparr>
                        in if \<not> esp_format_ok env then (False, [c1, c2])
                           else (format_ok env, [c1, c2, fmt pp])
                    | _ \<Rightarrow> (False, [c1]))
            else
              (let c1 = Partition_create_single (op_device_path op) (op_part_style op)
                          (op_fs_type op) (op_label op)
               in if \<not> partition_ok env then (False, [c1])
                  else
                    case partition_get_path (path_malloc_ok env) (op_device_path op) 1 of
                      None \<Rightarrow> (False, [c1])
                    | Some pp \<Rightarrow> (format_ok env, [c1, fmt pp]))))"

text \<open>
  \<open>on_confirm_response\<close>: \<open>response\<close> is the button chosen in the confirmation dialog
  (1 is Continue). On Continue the handler sets the busy status line and starts the
  worker thread with the operation; otherwise it frees the operation. The result is the
  status line set, if any, and whether the worker is started. Changes of widget
  sensitivity and of the progress bar are not among the calls recorded.
\<close>

definition on_confirm_response :: "nat \<Rightarrow> write_op_t \<Rightarrow> ui_call list \<times> bool" where
  "on_confirm_response response op =
     (if response = 1 then
        ([if op_write_iso op \<and> op_iso_extract op
          then Set_status ''Extracting ISO...'' ''status-busy''
          else Set_status (if op_write_iso op then ''Writing ISO...'' else ''Formatting...'')
                 ''status-busy''],
         True)
      else ([], False))"

text \<open>
  \<open>write_complete_idle\<close>, which the worker thread schedules on every way out: the
  status line for the operation's success flag.
\<close>

definition write_complete_idle :: "bool \<Rightarrow> ui_call list" where
  "write_complete_idle success =
     (if success then [Set_status ''Completed'' ''status-ready'']
      else [Set_status ''Operation failed'' ''status-error''])"

text \<open>
  A submitted job from the click to the completion handler of the worker thread.
\<close>

definition run_job :: "RufusWindow \<Rightarrow> os_state \<Rightarrow> nat \<Rightarrow> job_env \<Rightarrow> ui_call list" where
  "run_job self os response env =
     (case on_start_clicked self os of
        (calls, None) \<Rightarrow> calls
      | (calls, Some op) \<Rightarrow>
          (case on_confirm_response response op of
             (busy, False) \<Rightarrow> calls @ busy
           | (busy, True) \<Rightarrow>
               (case write_thread_func env op of
                  (success, thread_calls) \<Rightarrow>
                    calls @ busy @ thread_calls @ write_complete_idle success)))"


section \<open>Properties of the safety classifier\<close>

lemma forbidden_scan_iff:
  "forbidden_scan m forbidden_mounts = forbidden_path m"
  by (simp add: forbidden_mounts_def forbidden_path_def strncmp_eq_def)

lemma mounts_scan_iff:
  "mounts_scan ms = (\<exists>m \<in> set ms. forbidden_path m)"
  by (induction ms) (simp_all add: forbidden_scan_iff)

text \<open>
  Claim C1. A device whose mountpoint list holds \<open>/\<close>, \<open>/boot\<close>, \<open>/boot/efi\<close>,
  \<open>/home\<close> or a path beginning with \<open>/home/\<close> is classified as a system drive by
  \<open>has_forbidden_mount\<close> and \<open>device_is_system_drive\<close>, that is, it is not eligible
  for destructive operations.
\<close>

theorem C1_forbidden_mount_ineligible:
  assumes "mountpoints dev = Some ms"
    and "m \<in> set ms"
    and "m = ''/'' \<or> m = ''/boot'' \<or> m = ''/boot/efi'' \<or> m = ''/home''
         \<or> take 6 m = ''/home/''"
  shows "has_forbidden_mount (mountpoints dev) \<and> device_is_system_drive (Some dev)"
proof -
  from assms(3) have "forbidden_path m"
    by (simp add: forbidden_path_def)
  with assms(2) have "mounts_scan ms"
    unfolding mounts_scan_iff by blast
  with assms(1) show ?thesis
    by (simp add: has_forbidden_mount_def device_is_system_drive_def)
qed

theorem C1_forbidden_mount_ineligible_witness:
  "has_forbidden_mount (Some [''/media/usb'', ''/home/alice''])
   \<and> device_is_system_drive
       (Some \<lparr>dev_name = ''sdb'', dev_path = ''/dev/sdb'', dev_size = 0,
              mountpoints = Some [''/media/usb'', ''/home/alice''], mountpoint_count = 2\<rparr>)"
  using C1_forbidden_mount_ineligible
    [of "\<lparr>dev_name = ''sdb'', dev_path = ''/dev/sdb'', dev_size = 0,
          mountpoints = Some [''/media/usb'', ''/home/alice''], mountpoint_count = 2\<rparr>"
        "[''/media/usb'', ''/home/alice'']" "''/home/alice''"]
  by simp

section \<open>Properties of the partition engine\<close>

subsection \<open>Bootable layout\<close>

lemma gpt_type_msdata_not_efi: "GPT_TYPE_MSDATA \<noteq> GPT_TYPE_EFI"
  by (simp add: GPT_TYPE_MSDATA_def GPT_TYPE_EFI_def)

lemma get_gpt_type_not_efi: "get_gpt_type fs \<noteq> GPT_TYPE_EFI"
  by (cases fs) (simp_all add: GPT_TYPE_MSDATA_def GPT_TYPE_LINUX_def GPT_TYPE_EFI_def)

lemma partition_create_bootable_root_gpt_uefi:
  assumes "is_root env"
    and "fault env 0 = NoFault" and "fault env 1 = NoFault" and "fault env 2 = NoFault"
    and "target = TARGET_UEFI \<or> target = TARGET_BIOS_UEFI"
  shows "partition_create_bootable env PARTITION_STYLE_GPT target fs label d =
     \<lparr>ok = True,
      table = d\<lparr>disklabel := Some PARTITION_STYLE_GPT,
                rows :=
                  [\<lparr>partno = 0, row_start = StartFollowDefault,
                    row_size = SizeSectors (268435456 div sector_size d),
                    row_type = Some (GptGuid GPT_TYPE_MSDATA), row_active = False\<rparr>,
                   \<lparr>partno = 1, row_start = StartFollowDefault,
                    row_size = EndFollowDefault,
                    row_type = Some (GptGuid (get_gpt_type fs)), row_active = False\<rparr>]\<rparr>,
      script = None\<rparr>"
  using assms
  by (simp add: partition_create_bootable_def partition_create_table_def
      partition_add_def add_row_def)

text \<open>
  The unprivileged sibling path asks \<open>sfdisk\<close> for the same layout and gives the first
  partition the EFI System type \<open>U\<close>.
\<close>

lemma partition_create_bootable_unprivileged_gpt_uefi:
  assumes "\<not> is_root env" and "sfdisk_exists env"
    and "target = TARGET_UEFI \<or> target = TARGET_BIOS_UEFI"
  shows "partition_create_bootable env PARTITION_STYLE_GPT target fs label d =
     \<lparr>ok = (run_privileged_rc env = 0), table = d,
      script = Some \<lparr>sf_label = ''gpt'',
                      sf_lines = [\<lparr>sf_size = ''256M'', sf_type = ''U'', sf_boot = False\<rparr>,
                                  \<lparr>sf_size = [], sf_type = get_gpt_type fs,
                                   sf_boot = False\<rparr>]\<rparr>\<rparr>"
  using assms
  by (auto simp: partition_create_bootable_def partition_create_bootable_privileged_def)

text \<open>
  Claim C3 (the code departs from it). Run as root on a device with 512-byte sectors,
  with every libfdisk call succeeding, a UEFI request in GPT style yields exactly two
  partitions, the first of 256 MiB (524288 sectors) and the second taking the rest of
  the device; but the first partition is added with \<open>partition_add\<close> and the
  filesystem kind FAT32, so its type is the Microsoft basic data GUID that
  \<open>get_gpt_type\<close> returns, not the EFI System GUID.
\<close>

theorem C3_root_esp_has_msdata_type:
  "partition_create_bootable
     \<lparr>is_root = True, sfdisk_exists = True, run_privileged_rc = 0,
      fault = (\<lambda>n. NoFault)\<rparr>
     PARTITION_STYLE_GPT TARGET_UEFI FS_FAT32 (Some ''USB'')
     \<lparr>disklabel = None, rows = [], sector_size = 512\<rparr>
   = \<lparr>ok = True,
      table = \<lparr>disklabel = Some PARTITION_STYLE_GPT,
               rows =
                 [\<lparr>partno = 0, row_start = StartFollowDefault,
                   row_size = SizeSectors 524288,
                   row_type = Some (GptGuid ''EBD0A0A2-B9E5-4433-87C0-68B6B72699C7''),
                   row_active = False\<rparr>,
                  \<lparr>partno = 1, row_start = StartFollowDefault,
                   row_size = EndFollowDefault,
                   row_type = Some (GptGuid ''EBD0A0A2-B9E5-4433-87C0-68B6B72699C7''),
                   row_active = False\<rparr>],
               sector_size = 512\<rparr>,
      script = None\<rparr>
   \<and> ''EBD0A0A2-B9E5-4433-87C0-68B6B72699C7'' \<noteq> GPT_TYPE_EFI"
  by (simp add: partition_create_bootable_def partition_create_table_def
      partition_add_def add_row_def GPT_TYPE_MSDATA_def GPT_TYPE_EFI_def)

subsection \<open>Partition device paths\<close>

lemma strrchr_after_None: "strrchr_after c s = None \<longleftrightarrow> c \<notin> set s"
  by (induction s) (auto split: option.splits)

lemma strrchr_after_Some:
  "strrchr_after c s = Some t \<Longrightarrow> (\<exists>pre. s = pre @ c # t) \<and> c \<notin> set t"
proof (induction s arbitrary: t)
  case Nil
  then show ?case by simp
next
  case (Cons x xs)
  show ?case
  proof (cases "strrchr_after c xs")
    case None
    with Cons.prems have "x = c" and "t = xs"
      by (auto split: if_splits)
    moreover from None have "c \<notin> set xs"
      by (simp add: strrchr_after_None)
    ultimately show ?thesis by auto
  next
    case (Some u)
    with Cons.prems have "u = t" by simp
    with Some Cons.IH obtain pre where "xs = pre @ c # t" and "c \<notin> set t"
      by blast
    then have "x # xs = (x # pre) @ c # t" by simp
    with \<open>c \<notin> set t\<close> show ?thesis by blast
  qed
qed

text \<open>The base name is what follows the last slash of the device path.\<close>

lemma device_base_suffix:
  "CHR ''/'' \<notin> set (device_base device)
   \<and> (device_base device = device
      \<or> (\<exists>pre. device = pre @ CHR ''/'' # device_base device))"
proof (cases "strrchr_after CHR ''/'' device")
  case None
  then have "CHR ''/'' \<notin> set device"
    by (simp add: strrchr_after_None)
  with None show ?thesis
    by (simp add: device_base_def)
next
  case (Some b)
  from strrchr_after_Some [OF Some] show ?thesis
    by (simp add: device_base_def Some)
qed

lemma strrchr_after_last:
  "c \<notin> set t \<Longrightarrow> strrchr_after c (pre @ c # t) = Some t"
  by (induction pre) (simp_all add: strrchr_after_None [THEN iffD2])

lemma device_base_of_split:
  assumes "device = dir @ base" and "CHR ''/'' \<notin> set base"
    and "dir = [] \<or> last dir = CHR ''/''"
  shows "device_base device = base"
proof (cases "dir = []")
  case True
  with assms(1,2) have "strrchr_after CHR ''/'' device = None"
    by (simp add: strrchr_after_None)
  with True assms(1) show ?thesis
    by (simp add: device_base_def)
next
  case False
  with assms(3) have "dir = butlast dir @ [CHR ''/'']"
    by (metis append_butlast_last_id)
  with assms(1) have "device = butlast dir @ CHR ''/'' # base"
    by (metis append.assoc append_Cons append_Nil)
  with assms(2) have "strrchr_after CHR ''/'' device = Some base"
    by (simp add: strrchr_after_last)
  then show ?thesis
    by (simp add: device_base_def)
qed

text \<open>Every device path splits in this way, at its last slash.\<close>

lemma device_split_exists:
  "\<exists>dir base. device = dir @ base \<and> CHR ''/'' \<notin> set base
      \<and> (dir = [] \<or> last dir = CHR ''/'')"
proof (cases "strrchr_after CHR ''/'' device")
  case None
  then have "CHR ''/'' \<notin> set device"
    by (simp add: strrchr_after_None)
  then show ?thesis
    by (intro exI [of _ "[]"] exI [of _ device]) simp
next
  case (Some b)
  from strrchr_after_Some [OF Some] obtain pre where
    "device = pre @ CHR ''/'' # b" and "CHR ''/'' \<notin> set b"
    by blast
  then have "device = (pre @ [CHR ''/'']) @ b \<and> CHR ''/'' \<notin> set b
      \<and> (pre @ [CHR ''/''] = [] \<or> last (pre @ [CHR ''/'']) = CHR ''/'')"
    by simp
  then show ?thesis by blast
qed

lemma dec_value_snoc: "dec_value (s @ [c]) = 10 * dec_value s + digit_value c"
  by (simp add: dec_value_def)

lemma digit_char:
  assumes "k < 10"
  shows "digit_value (''0123456789'' ! k) = k \<and> ''0123456789'' ! k \<in> set ''0123456789''"
proof -
  from assms have "k = 0 \<or> k = 1 \<or> k = 2 \<or> k = 3 \<or> k = 4 \<or> k = 5 \<or> k = 6 \<or> k = 7
      \<or> k = 8 \<or> k = 9"
    by arith
  then show ?thesis
    by (elim disjE) (simp_all add: digit_value_def)
qed

lemma show_nat_decimal:
  "set (show_nat n) \<subseteq> set ''0123456789'' \<and> dec_value (show_nat n) = n"
proof (induction n rule: show_nat.induct)
  case (1 n)
  show ?case
  proof (cases "n < 10")
    case True
    with digit_char [of n] show ?thesis
      by (simp add: show_nat.simps [of n] dec_value_def)
  next
    case False
    with "1" have ih: "set (show_nat (n div 10)) \<subseteq> set ''0123456789''"
      "dec_value (show_nat (n div 10)) = n div 10"
      by simp_all
    have "n mod 10 < 10" by simp
    from digit_char [OF this] False ih show ?thesis
      by (simp add: show_nat.simps [of n] dec_value_snoc)
  qed
qed

text \<open>
  Claim C9. Let the device path be split at its last slash into the directory part and
  the base name (the whole path when it has no slash). For every partition index the
  partition path is the device path, then a \<open>p\<close> exactly when the base name ends in
  a decimal digit or starts with \<open>nvme\<close>, \<open>mmcblk\<close> or \<open>loop\<close>, then the index as
  \<open>%d\<close> prints it: for an index from 0 on its decimal digits, for a negative one a
  minus sign and the digits of its absolute value. In particular \<open>/dev/sda\<close> and 1
  give \<open>/dev/sda1\<close>, and \<open>/dev/nvme0n1\<close> and 1 give \<open>/dev/nvme0n1p1\<close>.
\<close>

theorem C9_partition_get_path:
  assumes "device = dir @ base" and "CHR ''/'' \<notin> set base"
    and "dir = [] \<or> last dir = CHR ''/''"
  shows "partition_get_path True device n =
           Some (device @
                 (if (base \<noteq> [] \<and> last base \<in> set ''0123456789'')
                     \<or> take 4 base = ''nvme''
                     \<or> take 6 base = ''mmcblk''
                     \<or> take 4 base = ''loop''
                  then ''p'' else []) @
                 show_int n)
       \<and> (0 \<le> n \<longrightarrow> set (show_int n) \<subseteq> set ''0123456789''
                     \<and> dec_value (show_int n) = nat n)
       \<and> (n < 0 \<longrightarrow> show_int n = CHR ''-'' # show_int (- n))
       \<and> partition_get_path True ''/dev/sda'' 1 = Some ''/dev/sda1''
       \<and> partition_get_path True ''/dev/nvme0n1'' 1 = Some ''/dev/nvme0n1p1''"
proof (intro conjI)
  from assms have "device_base device = base"
    by (rule device_base_of_split)
  then show "partition_get_path True device n =
           Some (device @
                 (if (base \<noteq> [] \<and> last base \<in> set ''0123456789'')
                     \<or> take 4 base = ''nvme''
                     \<or> take 6 base = ''mmcblk''
                     \<or> take 4 base = ''loop''
                  then ''p'' else []) @
                 show_int n)"
    by (auto simp: partition_get_path_def needs_p_def strncmp_eq_def isdigit_def
        last_conv_nth)
  show "0 \<le> n \<longrightarrow> set (show_int n) \<subseteq> set ''0123456789''
                     \<and> dec_value (show_int n) = nat n"
    using show_nat_decimal [of "nat n"] by (simp add: show_int_def)
  show "n < 0 \<longrightarrow> show_int n = CHR ''-'' # show_int (- n)"
    by (simp add: show_int_def)
  show "partition_get_path True ''/dev/sda'' 1 = Some ''/dev/sda1''"
    by code_simp
  show "partition_get_path True ''/dev/nvme0n1'' 1 = Some ''/dev/nvme0n1p1''"
    by code_simp
qed

theorem C9_partition_get_path_witness:
  "partition_get_path True ''/dev/mapper/nvme_crypt'' 12 = Some ''/dev/mapper/nvme_cryptp12''
   \<and> partition_get_path True ''/dev/md0'' 3 = Some ''/dev/md0p3''
   \<and> partition_get_path True ''/dev/sdb'' 12 = Some ''/dev/sdb12''
   \<and> dec_value (show_int 12) = 12"
  using C9_partition_get_path [of "''/dev/mapper/nvme_crypt''" "''/dev/mapper/''" "''nvme_crypt''" 12]
    C9_partition_get_path [of "''/dev/md0''" "''/dev/''" "''md0''" 3]
    C9_partition_get_path [of "''/dev/sdb''" "''/dev/''" "''sdb''" 12]
  by (simp add: show_int_def show_nat.simps)

section \<open>Properties of the format dispatcher\<close>

text \<open>
  What the polling loop reports when the child is seen running \<open>n\<close> times and then
  seen to have ended: one call per poll, and the status of the child.
\<close>

lemma format_wait_ends:
  assumes "w = Reaped st \<or> w = WaitError st"
  shows "format_wait True e (replicate n StillRunning @ w # rest) =
     Some (map (\<lambda>k. (if e + int k + 1 < 50 then real_of_int (e + int k + 1) * 0.02 else 0.99,
                     ''Formatting...'')) [0..<n], st)"
proof (induction n arbitrary: e)
  case 0
  from assms show ?case by auto
next
  case (Suc n)
  have shift: "map f [0..<Suc n] = f 0 # map (\<lambda>k. f (Suc k)) [0..<n]" for f :: "nat \<Rightarrow> progress_event"
    by (simp add: upt_conv_Cons map_Suc_upt [symmetric] del: upt_Suc)
  show ?case
    by (simp add: Suc.IH shift add.assoc add.commute add.left_commute del: upt_Suc)
qed

lemma format_frac_below_one:
  "(if (i::int) < 50 then real_of_int i * 0.02 else 0.99) < 1"
proof (cases "i < 50")
  case True
  then have "real_of_int i \<le> 49"
    by simp
  then have "real_of_int i * 0.02 \<le> 49 * 0.02"
    by simp
  with True show ?thesis by simp
next
  case False
  then show ?thesis by simp
qed

text \<open>
  A label so long that the joined command line does not fit \<open>cmd_str\<close>: the copy
  runs past the buffer before the first callback and before any process is started.
\<close>

lemma format_partition_long_label:
  "format_partition
     \<lparr>which_finds = (\<lambda>c. True), calloc_ok = True, fork_ok = True,
      waits = [Reaped (Exited 0)]\<rparr>
     (Some ''/dev/sdb1'')
     (Some \<lparr>fo_fs_type = FS_FAT32, fo_label = Some (replicate 1100 CHR ''A''),
            fo_cluster_size = 0, fo_quick_format = True\<rparr>)
     True
   = Cmd_str_overflow"
  by (simp add: format_partition_def format_is_supported_def format_get_mkfs_command_def
      get_mkfs_info_def mkfs_commands_def build_mkfs_args_def CMD_STR_SIZE_def)

text \<open>
  Claim C10. Let the formatting tool's process have been started: the tool is found, the
  argument vector is built, its joined command line fits \<open>cmd_str\<close>, and \<open>fork\<close>
  succeeds. Once the process is seen to have ended, \<open>format_partition\<close> calls the
  callback a last time with fraction 1.0 and the message \<open>Complete\<close>, whatever the
  exit status, and returns true only for exit status 0; every fraction reported before
  that call is below 1.0. (With a command line of 1024 bytes or more no process is
  started, as the lemma above shows.)
\<close>

theorem C10_format_final_progress:
  assumes "format_is_supported env (fo_fs_type opts)"
    and "build_mkfs_args env pp opts = Some args"
    and "length (cmd_str_of args) < CMD_STR_SIZE"
    and "fork_ok env"
    and "waits env = replicate n StillRunning @ w # rest"
    and "w = Reaped st \<or> w = WaitError st"
  shows "\<exists>evs. format_partition env (Some pp) (Some opts) True
               = Returned (st = Exited 0) (evs @ [(1.0, ''Complete'')])
             \<and> (\<forall>e \<in> set evs. fst e < 1.0)"
proof -
  let ?es = "map (\<lambda>k. (if 0 + int k + 1 < 50 then real_of_int (0 + int k + 1) * 0.02 else 0.99,
                        ''Formatting...'')) [0..<n]"
  let ?evs = "(0.0, ''Starting format...'') # ?es"
  from assms(5) format_wait_ends [OF assms(6), of 0 n rest]
  have wait: "format_wait True 0 (waits env) = Some (?es, st)"
    by simp
  have "format_partition env (Some pp) (Some opts) True
          = Returned (st = Exited 0) (?evs @ [(1.0, ''Complete'')])"
    using assms(1-4) wait
    by (simp add: format_partition_def)
  moreover have "\<forall>e \<in> set ?evs. fst e < 1.0"
  proof
    fix e assume "e \<in> set ?evs"
    then consider "e = (0.0, ''Starting format...'')"
      | k where "e = (if 0 + int k + 1 < 50 then real_of_int (0 + int k + 1) * 0.02 else 0.99,
                      ''Formatting...'')"
      by auto
    then show "fst e < 1.0"
    proof cases
      case 1
      then show ?thesis by simp
    next
      case 2
      with format_frac_below_one [of "0 + int k + 1"] show ?thesis
        by simp
    qed
  qed
  ultimately show ?thesis by blast
qed

theorem C10_format_final_progress_witness:
  "\<exists>evs. format_partition
            \<lparr>which_finds = (\<lambda>c. True), calloc_ok = True, fork_ok = True,
             waits = [StillRunning, StillRunning, Reaped (Exited 1)]\<rparr>
            (Some ''/dev/sdb1'')
            (Some \<lparr>fo_fs_type = FS_FAT32, fo_label = Some ''USB'', fo_cluster_size = 0,
                   fo_quick_format = True\<rparr>)
            True
          = Returned False (evs @ [(1.0, ''Complete'')])
        \<and> (\<forall>e \<in> set evs. fst e < 1.0)"
  using C10_format_final_progress
    [of "\<lparr>which_finds = (\<lambda>c. True), calloc_ok = True, fork_ok = True,
          waits = [StillRunning, StillRunning, Reaped (Exited 1)]\<rparr>"
        "\<lparr>fo_fs_type = FS_FAT32, fo_label = Some ''USB'', fo_cluster_size = 0,
          fo_quick_format = True\<rparr>"
        "''/dev/sdb1''"
        "[''mkfs.fat'', ''-F'', ''32'', ''-n'', ''USB'', ''/dev/sdb1'']"
        2 "Reaped (Exited 1)" "[]" "Exited 1"]
  by (simp add: format_is_supported_def format_get_mkfs_command_def get_mkfs_info_def
      mkfs_commands_def build_mkfs_args_def CMD_STR_SIZE_def numeral_2_eq_2)

section \<open>Properties of the raw image writer\<close>

subsection \<open>Progress values\<close>

lemma cap_le: "(if (x::u64) > isz then isz else x) \<le> isz"
  by (simp add: not_less)

lemma bytes_written_of_le: "bytes_written_of b isz c \<le> isz"
  unfolding bytes_written_of_def Let_def by (rule cap_le)

lemma unat_times_512:
  assumes "unat (d :: u64) < 2 ^ 55"
  shows "unat (d * 512) = unat d * 512"
proof -
  from assms have "unat d * unat (512 :: u64) < 2 ^ LENGTH(64)" by simp
  then have "unat (d * 512) = unat d * unat (512 :: u64)"
    by (rule unat_mult_lem [THEN iffD1])
  then show ?thesis by simp
qed

lemma cap_mono: "(x::u64) \<le> y \<Longrightarrow> (if x > isz then isz else x) \<le> (if y > isz then isz else y)"
  by (auto simp: not_less)

lemma bytes_written_of_mono:
  assumes "b \<le> c1" and "c1 \<le> c2" and "unat (c2 - b) < 2 ^ 55"
  shows "bytes_written_of b isz c1 \<le> bytes_written_of b isz c2"
proof -
  from assms(1,2) have b2: "b \<le> c2" by simp
  from assms have le: "unat (c1 - b) \<le> unat (c2 - b)"
    by (simp add: unat_sub b2 word_le_nat_alt)
  with assms(3) have s1: "unat (c1 - b) < 2 ^ 55" by simp
  have "unat ((c1 - b) * 512) \<le> unat ((c2 - b) * 512)"
    unfolding unat_times_512 [OF s1] unat_times_512 [OF assms(3)] using le by simp
  then have "(c1 - b) * 512 \<le> (c2 - b) * 512"
    by (simp only: word_le_nat_alt)
  then show ?thesis
    unfolding bytes_written_of_def Let_def by (rule cap_mono)
qed

text \<open>Non-decreasing samples above the baseline give non-decreasing byte counts.\<close>

lemma sorted_bytes:
  assumes "sorted (b # cs)" and "\<forall>c \<in> set cs. unat (c - b) < 2 ^ 55"
  shows "sorted (map (bytes_written_of b isz) cs)"
  using assms
proof (induction cs)
  case Nil
  then show ?case by simp
next
  case (Cons c cs)
  from Cons.prems have "sorted (b # cs)" and "\<forall>c \<in> set cs. unat (c - b) < 2 ^ 55"
    by auto
  then have "sorted (map (bytes_written_of b isz) cs)"
    by (rule Cons.IH)
  moreover have "bytes_written_of b isz c \<le> bytes_written_of b isz c'" if "c' \<in> set cs" for c'
    using that Cons.prems by (intro bytes_written_of_mono) auto
  ultimately show ?case by auto
qed

lemma progress_bytes_append: "progress_bytes (xs @ ys) = progress_bytes xs @ progress_bytes ys"
  by (induction xs rule: progress_bytes.induct) simp_all

lemma iso_write_sync_loop_run:
  assumes "\<forall>t \<in> set ts. \<forall>st. wait t \<noteq> Reaped st" and "wait tf = Reaped st"
  shows "\<exists>es. iso_write_sync_loop True dev isz b lt lb (ts @ tf # rest) = Some (st = Exited 0, es)
           \<and> progress_bytes es = map (\<lambda>t. bytes_written_of b isz (sample_of dev t)) ts @ [isz]"
  using assms(1)
proof (induction ts arbitrary: lt lb)
  case Nil
  from assms(2) show ?case by simp
next
  case (Cons t ts)
  obtain sp lb' lt' where sp:
    "speed_of (now t) lt (bytes_written_of b isz (sample_of dev t)) lb = (sp, lb', lt')"
    by (cases "speed_of (now t) lt (bytes_written_of b isz (sample_of dev t)) lb") auto
  from Cons.prems have "\<forall>t \<in> set ts. \<forall>st. wait t \<noteq> Reaped st" by simp
  from Cons.IH [OF this, of lt' lb'] obtain es where
    es: "iso_write_sync_loop True dev isz b lt' lb' (ts @ tf # rest) = Some (st = Exited 0, es)"
    and pb: "progress_bytes es = map (\<lambda>t. bytes_written_of b isz (sample_of dev t)) ts @ [isz]"
    by blast
  from Cons.prems have nr: "\<forall>st. wait t \<noteq> Reaped st" by simp
  have "iso_write_sync_loop True dev isz b lt lb ((t # ts) @ tf # rest)
          = Some (st = Exited 0,
                  Progress (bytes_written_of b isz (sample_of dev t)) isz sp # es)"
    using nr sp es by (cases "wait t") (simp_all add: sample_of_def Let_def)
  with pb show ?case by simp
qed


lemma writer_loop_quiet:
  assumes "\<not> cancel_requested w"
    and "\<forall>q \<in> set pre. copy_running q \<and> \<not> cancel_call q"
  shows "\<exists>lt' lb' evs.
           writer_loop w pid dev b lt lb (pre @ ts)
             = map_option (\<lambda>(w', es). (w', evs @ es)) (writer_loop w pid dev b lt' lb' ts)
           \<and> progress_bytes evs
               = (if progress_cb w
                  then map (\<lambda>t. bytes_written_of b (iso_size w) (sample_of dev t)) pre else [])
           \<and> Sync \<notin> set evs"
  using assms(2)
proof (induction pre arbitrary: lt lb)
  case Nil
  show ?case
    by (rule exI [of _ lt], rule exI [of _ lb], rule exI [of _ "[]"])
       (cases "writer_loop w pid dev b lt lb ts"; simp)
next
  case (Cons q pre)
  let ?bw = "bytes_written_of b (iso_size w) (sample_of dev q)"
  obtain sp lb1 lt1 where sp: "speed_of (now q) lt ?bw lb = (sp, lb1, lt1)"
    by (cases "speed_of (now q) lt ?bw lb") auto
  from Cons.prems have "\<forall>q \<in> set pre. copy_running q \<and> \<not> cancel_call q" by simp
  from Cons.IH [OF this, of lt1 lb1] obtain lt' lb' evs where
    run: "writer_loop w pid dev b lt1 lb1 (pre @ ts)
            = map_option (\<lambda>(w', es). (w', evs @ es)) (writer_loop w pid dev b lt' lb' ts)"
    and pb: "progress_bytes evs
               = (if progress_cb w
                  then map (\<lambda>t. bytes_written_of b (iso_size w) (sample_of dev t)) pre else [])"
    and ns: "Sync \<notin> set evs"
    by blast
  let ?ev = "if progress_cb w then [Progress ?bw (iso_size w) sp] else []"
  from Cons.prems have q: "copy_running q" "\<not> cancel_call q" by simp_all
  have "writer_loop w pid dev b lt lb ((q # pre) @ ts)
          = map_option (\<lambda>(w', es). (w', (?ev @ evs) @ es)) (writer_loop w pid dev b lt' lb' ts)"
    using assms(1) q sp run
    by (cases "wait q"; cases "writer_loop w pid dev b lt' lb' ts")
       (auto simp: copy_running_def sample_of_def Let_def)
  moreover have "progress_bytes (?ev @ evs)
      = (if progress_cb w
         then map (\<lambda>t. bytes_written_of b (iso_size w) (sample_of dev t)) (q # pre) else [])"
    using pb by (simp add: progress_bytes_append)
  moreover have "Sync \<notin> set (?ev @ evs)"
    using ns by simp
  ultimately show ?case by blast
qed


lemma sorted_snoc_top:
  assumes "sorted xs" and "\<forall>x \<in> set xs. x \<le> (m::u64)"
  shows "sorted (xs @ [m])"
  using assms by (simp add: sorted_append)

text \<open>
  Claim C6 (amended). Let the counter samples of the poll ticks be non-decreasing,
  starting from the baseline read before the copy, and let every difference to the
  baseline be below \<open>2^55\<close> sectors, so that its byte count fits 64 bits. Then,
  for every source size, the byte counts that \<open>iso_write_sync\<close> and the writer
  thread (when not cancelled) report through the progress callback, up to and including
  the report made when the copy process has ended, are non-decreasing and none exceeds
  the source size. The samples \<open>[0, 100, 250, 250, 500]\<close> with baseline 0 are such a
  sequence.
\<close>

theorem C6_progress_monotone:
  assumes "stat_ok env" and "pipe_ok env" and "fork_result env \<noteq> -1"
    and "ticks env = ts @ tf # rest"
    and "\<forall>t \<in> set ts. wait t = StillRunning \<and> \<not> cancel_call t"
    and "wait tf = Reaped st"
    and "sorted (get_device_sectors_written dev (baseline_stat env) # map (sample_of dev) ts)"
    and "\<forall>t \<in> set ts.
           unat (sample_of dev t - get_device_sectors_written dev (baseline_stat env)) < 2 ^ 55"
    and "device_path writer = Some dev" and "progress_cb writer"
    and "\<not> cancel_requested writer" and "\<not> cancel_before_pid env"
  shows "(\<exists>r es. iso_write_sync env ip dev True = Some (r, es)
            \<and> sorted (progress_bytes es)
            \<and> (\<forall>x \<in> set (progress_bytes es). x \<le> st_size env))
       \<and> (\<exists>w' es. writer_thread env writer = Some (w', es)
            \<and> sorted (progress_bytes es)
            \<and> (\<forall>x \<in> set (progress_bytes es). x \<le> iso_size writer))"
proof
  let ?b = "get_device_sectors_written dev (baseline_stat env)"
  have srt: "sorted (map (bytes_written_of ?b isz) (map (sample_of dev) ts))" for isz
    using assms(7,8) by (intro sorted_bytes) auto
  have bnd: "\<forall>x \<in> set (map (bytes_written_of ?b isz) (map (sample_of dev) ts)). x \<le> isz" for isz
    by (simp add: bytes_written_of_le)
  have all: "sorted (map (bytes_written_of ?b isz) (map (sample_of dev) ts) @ [isz])" for isz
    using srt bnd by (rule sorted_snoc_top)
  show "\<exists>r es. iso_write_sync env ip dev True = Some (r, es)
            \<and> sorted (progress_bytes es)
            \<and> (\<forall>x \<in> set (progress_bytes es). x \<le> st_size env)"
  proof -
    from assms(5) have "\<forall>t \<in> set ts. \<forall>st. wait t \<noteq> Reaped st" by simp
    from iso_write_sync_loop_run [OF this assms(6), of dev "st_size env" ?b "start_time env" 0 rest]
    obtain es where
      run: "iso_write_sync_loop True dev (st_size env) ?b (start_time env) 0 (ts @ tf # rest)
              = Some (st = Exited 0, es)"
      and pb: "progress_bytes es
              = map (\<lambda>t. bytes_written_of ?b (st_size env) (sample_of dev t)) ts @ [st_size env]"
      by blast
    from run assms(1,3,4) have "iso_write_sync env ip dev True = Some (st = Exited 0, es)"
      by (simp add: iso_write_sync_def Let_def)
    moreover from pb all [of "st_size env"] have "sorted (progress_bytes es)"
      by (simp add: comp_def)
    moreover from pb have "\<forall>x \<in> set (progress_bytes es). x \<le> st_size env"
      by (auto simp: bytes_written_of_le)
    ultimately show ?thesis by blast
  qed
  show "\<exists>w' es. writer_thread env writer = Some (w', es)
            \<and> sorted (progress_bytes es)
            \<and> (\<forall>x \<in> set (progress_bytes es). x \<le> iso_size writer)"
  proof -
    let ?w = "writer\<lparr>state := WRITE_STATE_WRITING, dd_pid := fork_result env\<rparr>"
    let ?isz = "iso_size writer"
    from assms(5) have quiet: "\<forall>q \<in> set ts. copy_running q \<and> \<not> cancel_call q"
      by (simp add: copy_running_def)
    from assms(11) have nc: "\<not> cancel_requested ?w" by simp
    from writer_loop_quiet [OF nc quiet, of "fork_result env" dev ?b "start_time env" 0 "tf # rest"]
    obtain lt' lb' evs where
      run: "writer_loop ?w (fork_result env) dev ?b (start_time env) 0 (ts @ tf # rest)
              = map_option (\<lambda>(w', es). (w', evs @ es))
                  (writer_loop ?w (fork_result env) dev ?b lt' lb' (tf # rest))"
      and pb: "progress_bytes evs = map (\<lambda>t. bytes_written_of ?b ?isz (sample_of dev t)) ts"
      using assms(10) by auto
    obtain w1 ec where ec: "(if cancel_call tf then iso_writer_cancel ?w else (?w, [])) = (w1, ec)"
      and ecp: "progress_bytes ec = []" and w1: "iso_size w1 = ?isz" "progress_cb w1"
      using assms(10) by (cases "cancel_call tf") (auto simp: iso_writer_cancel_def)
    obtain w2 ef where ef: "(if st = Exited 0 then writer_success w1 else writer_error w1) = (w2, ef)"
      and efp: "progress_bytes ef = [] \<or> progress_bytes ef = [?isz]"
      using w1 by (cases "st = Exited 0") (auto simp: writer_success_def writer_error_def)
    have last: "writer_loop ?w (fork_result env) dev ?b lt' lb' (tf # rest) = Some (w2, ec @ ef)"
      using nc assms(6) ec ef by simp
    let ?tr = "SetState WRITE_STATE_WRITING # evs @ ec @ ef"
    have "writer_thread env writer = Some (w2, ?tr)"
      using assms(2,3,4,9,12) run last by (simp add: writer_thread_def Let_def)
    moreover have "progress_bytes ?tr
        = map (bytes_written_of ?b ?isz) (map (sample_of dev) ts) @ progress_bytes ef"
      using pb ecp by (simp add: progress_bytes_append comp_def)
    then have "sorted (progress_bytes ?tr) \<and> (\<forall>x \<in> set (progress_bytes ?tr). x \<le> ?isz)"
      using efp srt [of ?isz] all [of ?isz] by (auto simp: bytes_written_of_le)
    ultimately show ?thesis by blast
  qed
qed


theorem C6_progress_monotone_witness:
  "(\<exists>r es. iso_write_sync
              \<lparr>stat_ok = True, st_size = 200000,
               baseline_stat = Fields [0, 0, 0, 0, 0, 0, 0, 0],
               pipe_ok = True, fork_result = 4242, pthread_create_ok = True, start_time = 0,
               cancel_before_pid = False,
               ticks =
                 map (\<lambda>s. \<lparr>cancel_call = False, wait = StillRunning, eintr = False,
                            stat = Fields [0, 0, 0, 0, 0, 0, s, 0], now = 0\<rparr>)
                   [0, 100, 250, 250, 500]
                 @ [\<lparr>cancel_call = False, wait = Reaped (Exited 0), eintr = False,
                     stat = OpenFailed, now = 0\<rparr>]\<rparr>
              ''image.iso'' ''/dev/sdb'' True = Some (r, es)
            \<and> sorted (progress_bytes es)
            \<and> (\<forall>x \<in> set (progress_bytes es). x \<le> 200000))
   \<and> (\<exists>w' es. writer_thread
              \<lparr>stat_ok = True, st_size = 200000,
               baseline_stat = Fields [0, 0, 0, 0, 0, 0, 0, 0],
               pipe_ok = True, fork_result = 4242, pthread_create_ok = True, start_time = 0,
               cancel_before_pid = False,
               ticks =
                 map (\<lambda>s. \<lparr>cancel_call = False, wait = StillRunning, eintr = False,
                            stat = Fields [0, 0, 0, 0, 0, 0, s, 0], now = 0\<rparr>)
                   [0, 100, 250, 250, 500]
                 @ [\<lparr>cancel_call = False, wait = Reaped (Exited 0), eintr = False,
                     stat = OpenFailed, now = 0\<rparr>]\<rparr>
              \<lparr>iso_path = Some ''image.iso'', device_path = Some ''/dev/sdb'',
               iso_size = 200000, progress_cb = True, complete_cb = True,
               state = WRITE_STATE_IDLE, dd_pid = -1, cancel_requested = False,
               thread_running = True\<rparr> = Some (w', es)
            \<and> sorted (progress_bytes es)
            \<and> (\<forall>x \<in> set (progress_bytes es). x \<le> 200000))"
  using C6_progress_monotone
    [of "\<lparr>stat_ok = True, st_size = 200000,
          baseline_stat = Fields [0, 0, 0, 0, 0, 0, 0, 0],
          pipe_ok = True, fork_result = 4242, pthread_create_ok = True, start_time = 0,
          cancel_before_pid = False,
          ticks =
            map (\<lambda>s. \<lparr>cancel_call = False, wait = StillRunning, eintr = False,
                       stat = Fields [0, 0, 0, 0, 0, 0, s, 0], now = 0\<rparr>)
              [0, 100, 250, 250, 500]
            @ [\<lparr>cancel_call = False, wait = Reaped (Exited 0), eintr = False,
                stat = OpenFailed, now = 0\<rparr>]\<rparr>"
        "map (\<lambda>s. \<lparr>cancel_call = False, wait = StillRunning, eintr = False,
                   stat = Fields [0, 0, 0, 0, 0, 0, s, 0], now = 0\<rparr>)
           [0, 100, 250, 250, 500]"
        "\<lparr>cancel_call = False, wait = Reaped (Exited 0), eintr = False,
          stat = OpenFailed, now = 0\<rparr>"
        "[]" "Exited 0" "''/dev/sdb''"
        "\<lparr>iso_path = Some ''image.iso'', device_path = Some ''/dev/sdb'',
          iso_size = 200000, progress_cb = True, complete_cb = True,
          state = WRITE_STATE_IDLE, dd_pid = -1, cancel_requested = False,
          thread_running = True\<rparr>"
        "''image.iso''"]
  by (simp add: sample_of_def get_device_sectors_written_def
      del: writer_loop.simps iso_write_sync_loop.simps)

text \<open>
  Claim C6 as stated fails once a difference reaches \<open>2^55\<close> sectors: the product
  with 512 wraps around. With baseline 0, source size 1000 and the non-decreasing
  samples \<open>2^54\<close>, \<open>2^55\<close> the reports are 1000, 0 and, at the end, 1000.
\<close>

theorem C6_progress_monotone_counterexample:
  "sorted [0, 18014398509481984, 36028797018963968 :: u64]
   \<and> map_option (progress_bytes \<circ> snd)
       (iso_write_sync
          \<lparr>stat_ok = True, st_size = 1000, baseline_stat = Fields [0, 0, 0, 0, 0, 0, 0, 0],
           pipe_ok = True, fork_result = 4242, pthread_create_ok = True, start_time = 0,
           cancel_before_pid = False,
           ticks =
             [\<lparr>cancel_call = False, wait = StillRunning, eintr = False,
               stat = Fields [0, 0, 0, 0, 0, 0, 18014398509481984, 0], now = 1\<rparr>,
              \<lparr>cancel_call = False, wait = StillRunning, eintr = False,
               stat = Fields [0, 0, 0, 0, 0, 0, 36028797018963968, 0], now = 2\<rparr>,
              \<lparr>cancel_call = False, wait = Reaped (Exited 0), eintr = False,
               stat = OpenFailed, now = 3\<rparr>]\<rparr>
          ''image.iso'' ''/dev/sdb'' True)
     = Some [1000, 0, 1000]
   \<and> \<not> sorted [1000, 0, 1000 :: u64]"
  by (simp add: iso_write_sync_def get_device_sectors_written_def bytes_written_of_def
      speed_of_def Let_def)

text \<open>
  Claim C7 (the code departs from it). A read of the stat file that converts fewer than
  seven fields makes \<open>get_device_sectors_written\<close> return 0, not the previous
  sample. With a baseline of 100 sectors the difference \<open>0 - 100\<close> wraps around, the
  byte count exceeds the source size and is capped to it: after a tick that reported
  25600 bytes, the tick with the short read reports the full source size of 1000000.
\<close>

theorem C7_short_read_reports_full_size:
  "get_device_sectors_written ''/dev/sdb'' (Fields [5, 0, 40]) = 0
   \<and> map_option (progress_bytes \<circ> snd)
       (iso_write_sync
          \<lparr>stat_ok = True, st_size = 1000000,
           baseline_stat = Fields [5, 0, 40, 0, 7, 0, 100, 0],
           pipe_ok = True, fork_result = 4242, pthread_create_ok = True, start_time = 0,
           cancel_before_pid = False,
           ticks =
             [\<lparr>cancel_call = False, wait = StillRunning, eintr = False,
               stat = Fields [5, 0, 40, 0, 9, 0, 150, 0], now = 1\<rparr>,
              \<lparr>cancel_call = False, wait = StillRunning, eintr = False,
               stat = Fields [5, 0, 40], now = 2\<rparr>,
              \<lparr>cancel_call = False, wait = Reaped (Exited 0), eintr = False,
               stat = OpenFailed, now = 3\<rparr>]\<rparr>
          ''image.iso'' ''/dev/sdb'' True)
     = Some [25600, 1000000, 1000000]
   \<and> (25600 :: u64) < 1000000"
  by (simp add: iso_write_sync_def get_device_sectors_written_def bytes_written_of_def
      speed_of_def Let_def)

subsection \<open>Cancellation\<close>

text \<open>
  Claim C4 as stated fails when the request arrives after the worker has read the flag
  in an iteration whose \<open>waitpid\<close> finds the copy process ended with status 0: the
  writer is in state Writing when \<open>iso_writer_cancel\<close> runs, and the thread goes on
  to Syncing, calls \<open>sync\<close> and ends in Complete.
\<close>

theorem C4_late_cancel_counterexample:
  "iso_writer_start
     \<lparr>stat_ok = True, st_size = 1000000, baseline_stat = Fields [0, 0, 0, 0, 0, 0, 0, 0],
      pipe_ok = True, fork_result = 4242, pthread_create_ok = True, start_time = 0,
      cancel_before_pid = False,
      ticks = [\<lparr>cancel_call = True, wait = Reaped (Exited 0), eintr = False,
                stat = OpenFailed, now = 1\<rparr>]\<rparr>
     iso_writer_new (Some ''image.iso'') (Some ''/dev/sdb'') True True
   = Some (True,
       \<lparr>iso_path = Some ''image.iso'', device_path = Some ''/dev/sdb'', iso_size = 1000000,
        progress_cb = True, complete_cb = True, state = WRITE_STATE_COMPLETE, dd_pid = -1,
        cancel_requested = True, thread_running = False\<rparr>,
       [SetState WRITE_STATE_WRITING, CancelCalled WRITE_STATE_WRITING, Kill 4242 SIGTERM,
        SetState WRITE_STATE_SYNCING, Sync, SetState WRITE_STATE_COMPLETE,
        Progress 1000000 1000000 0, CompleteCb WRITE_STATE_COMPLETE ''Write complete''])"
  by (simp add: iso_writer_start_def iso_writer_new_def writer_thread_def
      iso_writer_cancel_def writer_success_def get_device_sectors_written_def Let_def)


lemma writer_loop_flag_set:
  assumes "cancel_requested w"
  shows "\<exists>w'. writer_loop w pid dev b lt lb (t # ts) = Some (w', cancelled_tail w pid)
              \<and> state w' = WRITE_STATE_CANCELLED"
  using assms by (simp add: writer_cancelled_def cancelled_tail_def)

lemma writer_loop_cancel_seen:
  assumes "\<forall>q \<in> set pre. copy_running q"
    and "cancel_requested w \<or> (\<exists>q \<in> set pre. cancel_call q)"
  shows "\<exists>w' tr0. writer_loop w pid dev b lt lb (pre @ t' # rest)
                    = Some (w', tr0 @ cancelled_tail w pid)
                 \<and> state w' = WRITE_STATE_CANCELLED \<and> no_flush tr0"
  using assms
proof (induction pre arbitrary: w lt lb)
  case Nil
  then have "cancel_requested w" by simp
  from writer_loop_flag_set [OF this, of pid dev b lt lb t' rest] obtain w' where
    "writer_loop w pid dev b lt lb (t' # rest) = Some (w', cancelled_tail w pid)"
    and "state w' = WRITE_STATE_CANCELLED"
    by blast
  then show ?case
    by (intro exI [of _ w'] exI [of _ "[]"]) (simp add: no_flush_def del: writer_loop.simps)
next
  case (Cons q pre)
  show ?case
  proof (cases "cancel_requested w")
    case True
    from writer_loop_flag_set [OF this, of pid dev b lt lb q "pre @ t' # rest"] obtain w' where
      "writer_loop w pid dev b lt lb (q # pre @ t' # rest) = Some (w', cancelled_tail w pid)"
      and "state w' = WRITE_STATE_CANCELLED"
      by blast
    then show ?thesis
      by (intro exI [of _ w'] exI [of _ "[]"]) (simp add: no_flush_def del: writer_loop.simps)
  next
    case False
    obtain w1 ec where ec: "(if cancel_call q then iso_writer_cancel w else (w, [])) = (w1, ec)"
      and ecf: "no_flush ec" and ccb: "complete_cb w1 = complete_cb w"
      and isz: "iso_size w1 = iso_size w" "progress_cb w1 = progress_cb w"
      and flag: "cancel_requested w1 = (cancel_call q \<or> cancel_requested w)"
      by (cases "cancel_call q") (auto simp: iso_writer_cancel_def no_flush_def)
    let ?bw = "bytes_written_of b (iso_size w1) (sample_of dev q)"
    obtain sp lb1 lt1 where sp: "speed_of (now q) lt ?bw lb = (sp, lb1, lt1)"
      by (cases "speed_of (now q) lt ?bw lb") auto
    let ?ev = "if progress_cb w1 then [Progress ?bw (iso_size w1) sp] else []"
    from Cons.prems False flag have pre: "\<forall>q \<in> set pre. copy_running q"
      and seen: "cancel_requested w1 \<or> (\<exists>q \<in> set pre. cancel_call q)"
      by auto
    from Cons.IH [OF pre seen, of lt1 lb1] obtain w' tr0 where
      run: "writer_loop w1 pid dev b lt1 lb1 (pre @ t' # rest)
              = Some (w', tr0 @ cancelled_tail w1 pid)"
      and st: "state w' = WRITE_STATE_CANCELLED" and nf: "no_flush tr0"
      by blast
    from Cons.prems have "copy_running q" by simp
    then have "writer_loop w pid dev b lt lb ((q # pre) @ t' # rest)
                 = Some (w', (ec @ ?ev @ tr0) @ cancelled_tail w pid)"
      using False ec sp run ccb
      by (cases "wait q") (auto simp: copy_running_def sample_of_def Let_def cancelled_tail_def)
    moreover have "no_flush (ec @ ?ev @ tr0)"
      using ecf nf by (auto simp: no_flush_def)
    ultimately show ?thesis using st by blast
  qed
qed

text \<open>
  Claim C4 (amended). If \<open>iso_writer_cancel\<close> is called while the job is in state
  Writing, before the child's pid is stored or during a poll iteration, and the copy
  process is still running at every poll up to the worker's next read of the flag, then
  the thread returns: it sends \<open>SIGTERM\<close> to the copy process, waits for its exit, sets
  the state to Cancelled and reports it, and before that it neither sets Syncing or
  Complete nor calls \<open>sync\<close>.
\<close>

theorem C4_cancel_seen_by_poll:
  assumes "device_path writer = Some dev" and "pipe_ok env" and "fork_result env \<noteq> -1"
    and "ticks env = pre @ t' # rest"
    and "\<forall>q \<in> set pre. copy_running q"
    and "cancel_before_pid env \<or> (\<exists>q \<in> set pre. cancel_call q)"
  shows "\<exists>w' tr0. writer_thread env writer
                    = Some (w', tr0
                              @ [Kill (fork_result env) SIGTERM, WaitExit (fork_result env),
                                 SetState WRITE_STATE_CANCELLED]
                              @ (if complete_cb writer
                                 then [CompleteCb WRITE_STATE_CANCELLED ''Write cancelled'']
                                 else []))
                 \<and> state w' = WRITE_STATE_CANCELLED
                 \<and> Sync \<notin> set tr0
                 \<and> SetState WRITE_STATE_SYNCING \<notin> set tr0
                 \<and> SetState WRITE_STATE_COMPLETE \<notin> set tr0"
proof -
  let ?w1 = "writer\<lparr>state := WRITE_STATE_WRITING\<rparr>"
  let ?b = "get_device_sectors_written dev (baseline_stat env)"
  let ?pid = "fork_result env"
  obtain w2 ec where ec: "(if cancel_before_pid env then iso_writer_cancel ?w1 else (?w1, [])) = (w2, ec)"
    and ecf: "no_flush ec" and ccb: "complete_cb w2 = complete_cb writer"
    and flag: "cancel_requested w2 = (cancel_before_pid env \<or> cancel_requested writer)"
    by (cases "cancel_before_pid env") (auto simp: iso_writer_cancel_def no_flush_def)
  let ?w3 = "w2\<lparr>dd_pid := ?pid\<rparr>"
  from assms(6) flag have seen: "cancel_requested ?w3 \<or> (\<exists>q \<in> set pre. cancel_call q)"
    by auto
  from writer_loop_cancel_seen [OF assms(5) seen, of ?pid dev ?b "start_time env" 0 t' rest]
  obtain w' tr0 where
    run: "writer_loop ?w3 ?pid dev ?b (start_time env) 0 (pre @ t' # rest)
            = Some (w', tr0 @ cancelled_tail ?w3 ?pid)"
    and st: "state w' = WRITE_STATE_CANCELLED" and nf: "no_flush tr0"
    by blast
  have "writer_thread env writer
          = Some (w', (SetState WRITE_STATE_WRITING # ec @ tr0) @ cancelled_tail ?w3 ?pid)"
    using assms(1-4) ec run by (simp add: writer_thread_def Let_def)
  moreover have "no_flush (SetState WRITE_STATE_WRITING # ec @ tr0)"
    using ecf nf by (auto simp: no_flush_def)
  ultimately show ?thesis
    using st ccb unfolding no_flush_def cancelled_tail_def
    by (intro exI [of _ w'] exI [of _ "SetState WRITE_STATE_WRITING # ec @ tr0"]) simp
qed


theorem C4_cancel_seen_by_poll_witness:
  "\<exists>w' tr0.
     writer_thread
       \<lparr>stat_ok = True, st_size = 1000000, baseline_stat = Fields [0, 0, 0, 0, 0, 0, 0, 0],
        pipe_ok = True, fork_result = 4242, pthread_create_ok = True, start_time = 0,
        cancel_before_pid = False,
        ticks = [\<lparr>cancel_call = True, wait = StillRunning, eintr = False,
                  stat = Fields [0, 0, 0, 0, 0, 0, 10, 0], now = 1\<rparr>,
                 \<lparr>cancel_call = False, wait = Reaped (Signaled 15), eintr = False,
                  stat = OpenFailed, now = 2\<rparr>]\<rparr>
       \<lparr>iso_path = Some ''image.iso'', device_path = Some ''/dev/sdb'', iso_size = 1000000,
        progress_cb = True, complete_cb = True, state = WRITE_STATE_IDLE, dd_pid = -1,
        cancel_requested = False, thread_running = True\<rparr>
     = Some (w', tr0
               @ [Kill 4242 SIGTERM, WaitExit 4242, SetState WRITE_STATE_CANCELLED]
               @ [CompleteCb WRITE_STATE_CANCELLED ''Write cancelled''])
     \<and> state w' = WRITE_STATE_CANCELLED
     \<and> Sync \<notin> set tr0
     \<and> SetState WRITE_STATE_SYNCING \<notin> set tr0
     \<and> SetState WRITE_STATE_COMPLETE \<notin> set tr0"
  using C4_cancel_seen_by_poll
    [of "\<lparr>iso_path = Some ''image.iso'', device_path = Some ''/dev/sdb'', iso_size = 1000000,
          progress_cb = True, complete_cb = True, state = WRITE_STATE_IDLE, dd_pid = -1,
          cancel_requested = False, thread_running = True\<rparr>"
        "''/dev/sdb''"
        "\<lparr>stat_ok = True, st_size = 1000000, baseline_stat = Fields [0, 0, 0, 0, 0, 0, 0, 0],
          pipe_ok = True, fork_result = 4242, pthread_create_ok = True, start_time = 0,
          cancel_before_pid = False,
          ticks = [\<lparr>cancel_call = True, wait = StillRunning, eintr = False,
                    stat = Fields [0, 0, 0, 0, 0, 0, 10, 0], now = 1\<rparr>,
                   \<lparr>cancel_call = False, wait = Reaped (Signaled 15), eintr = False,
                    stat = OpenFailed, now = 2\<rparr>]\<rparr>"
        "[\<lparr>cancel_call = True, wait = StillRunning, eintr = False,
           stat = Fields [0, 0, 0, 0, 0, 0, 10, 0], now = 1\<rparr>]"
        "\<lparr>cancel_call = False, wait = Reaped (Signaled 15), eintr = False,
          stat = OpenFailed, now = 2\<rparr>"
        "[]"]
  by (simp add: copy_running_def del: writer_loop.simps)

section \<open>Properties of enumeration and job submission\<close>

lemma enumerate_scan_safe:
  assumes "\<forall>d \<in> set acc. \<not> has_forbidden_mount (mountpoints d)"
  shows "\<forall>d \<in> set (enumerate_scan os us acc). \<not> has_forbidden_mount (mountpoints d)"
  using assms
proof (induction us arbitrary: acc)
  case Nil
  then show ?case by simp
next
  case (Cons u us)
  show ?case
  proof (cases "length acc \<ge> MAX_DEVICES")
    case True
    with Cons.prems show ?thesis by simp
  next
    case False
    show ?thesis
    proof (cases "ud_sysname u")
      case None
      with False Cons show ?thesis by simp
    next
      case (Some devname)
      let ?m = "fst (get_mountpoints os (ud_devnode u))"
      let ?d = "\<lparr>dev_name = devname, dev_path = ud_devnode u,
                 dev_size = ud_size_sectors u * 512, mountpoints = ?m,
                 mountpoint_count = snd (get_mountpoints os (ud_devnode u))\<rparr>"
      have step: "enumerate_scan os (u # us) acc = enumerate_scan os us acc
                  \<or> (\<not> has_forbidden_mount ?m
                      \<and> enumerate_scan os (u # us) acc = enumerate_scan os us (acc @ [?d]))"
        using False Some by simp
      then show ?thesis
      proof
        assume "enumerate_scan os (u # us) acc = enumerate_scan os us acc"
        with Cons show ?thesis by simp
      next
        assume a: "\<not> has_forbidden_mount ?m
                   \<and> enumerate_scan os (u # us) acc = enumerate_scan os us (acc @ [?d])"
        with Cons.prems have "\<forall>d \<in> set (acc @ [?d]). \<not> has_forbidden_mount (mountpoints d)"
          by simp
        from Cons.IH [OF this] a show ?thesis by simp
      qed
    qed
  qed
qed

lemma device_enumerate_safe:
  "d \<in> set (device_enumerate os) \<Longrightarrow> \<not> device_is_system_drive (Some d)"
  using enumerate_scan_safe [of "[]" os "udev_devices os"]
  by (simp add: device_enumerate_def device_is_system_drive_def)

subsection \<open>Submission on a stale snapshot\<close>

text \<open>
  Claim C2 (the code departs from it). The eligibility predicate is evaluated only
  inside \<open>device_enumerate\<close>; the start handler and the worker never read the mount
  table again. A USB device enumerated while its partition was mounted on
  \<open>/media/usb\<close> passes the check and is listed. When the job is submitted the
  partition is mounted on \<open>/home\<close>: the fresh mount set is forbidden and
  \<open>device_is_system_drive\<close> holds of the device with it, yet the job unmounts the
  mountpoint of the snapshot, asks for confirmation and writes the image to the device.
\<close>

theorem C2_stale_snapshot_job_runs:
  "device_enumerate
     \<lparr>proc_mounts = Some [(''/dev/sdb1'', ''/media/usb'')],
      udev_devices = [\<lparr>ud_sysname = Some ''sdb'', ud_devnode = ''/dev/sdb'',
                        ud_id_bus = Some ''usb'', ud_size_sectors = 15000000\<rparr>],
      iso_extract_is_supported = True, umount2_ok = (\<lambda>m. True),
      umount_cmd_ok = (\<lambda>m. True)\<rparr>
   = [\<lparr>dev_name = ''sdb'', dev_path = ''/dev/sdb'', dev_size = 7680000000,
       mountpoints = Some [''/media/usb''], mountpoint_count = 1\<rparr>]
   \<and> get_mountpoints
       \<lparr>proc_mounts = Some [(''/dev/sdb1'', ''/home'')],
        udev_devices = [\<lparr>ud_sysname = Some ''sdb'', ud_devnode = ''/dev/sdb'',
                          ud_id_bus = Some ''usb'', ud_size_sectors = 15000000\<rparr>],
        iso_extract_is_supported = True, umount2_ok = (\<lambda>m. True),
        umount_cmd_ok = (\<lambda>m. True)\<rparr>
       ''/dev/sdb''
     = (Some [''/home''], 1)
   \<and> device_is_system_drive
       (Some \<lparr>dev_name = ''sdb'', dev_path = ''/dev/sdb'', dev_size = 7680000000,
              mountpoints = Some [''/home''], mountpoint_count = 1\<rparr>)
   \<and> run_job
       \<lparr>device_dropdown = 0, boot_dropdown = 0, write_mode_dropdown = 0,
        partition_dropdown = 0, target_dropdown = 0, fs_dropdown = 0, cluster_dropdown = 0,
        label_entry = ''USB'',
        devices = Some [\<lparr>dev_name = ''sdb'', dev_path = ''/dev/sdb'',
                          dev_size = 7680000000,
                          mountpoints = Some [''/media/usb''], mountpoint_count = 1\<rparr>],
        win_iso_path = Some ''image.iso'',
        win_iso_info = Some \<lparr>ii_size = 4000000000, ii_is_bootable = True,
                              ii_has_efi = True, ii_is_windows = False\<rparr>\<rparr>
       \<lparr>proc_mounts = Some [(''/dev/sdb1'', ''/home'')],
        udev_devices = [\<lparr>ud_sysname = Some ''sdb'', ud_devnode = ''/dev/sdb'',
                          ud_id_bus = Some ''usb'', ud_size_sectors = 15000000\<rparr>],
        iso_extract_is_supported = True, umount2_ok = (\<lambda>m. True),
        umount_cmd_ok = (\<lambda>m. True)\<rparr>
       1
       \<lparr>partition_ok = True, path_malloc_ok = True, esp_format_ok = True,
        format_ok = True, extract_ok = True, write_ok = True\<rparr>
     = [Umount2 ''/media/usb'', Confirm_dialog ''/dev/sdb'',
        Set_status ''Writing ISO...'' ''status-busy'',
        Iso_write_sync (Some ''image.iso'') ''/dev/sdb'',
        Set_status ''Completed'' ''status-ready'']
   \<and> destructive (Umount2 ''/media/usb'')
   \<and> destructive (Iso_write_sync (Some ''image.iso'') ''/dev/sdb'')"
  by (simp add: device_enumerate_def get_mountpoints_def MAX_DEVICES_def strncmp_eq_def
      has_forbidden_mount_def forbidden_mounts_def device_is_system_drive_def
      run_job_def on_start_clicked_def on_confirm_response_def write_complete_idle_def
      write_thread_func_def GTK_INVALID_LIST_POSITION_def device_is_mounted_def
      device_unmount_def Let_def)

subsection \<open>Rejections of the start handler\<close>

text \<open>
  Claim C5. A job with a source image whose size is larger than the size of the selected
  device is rejected by the start handler before it unmounts anything: the only calls are
  status lines, the last one the error \<open>ISO is larger than the target device\<close> (the
  size mismatch that the specification files under SafetyViolation); no confirmation
  dialog is shown and no operation is handed to a worker thread, so nothing is
  partitioned, formatted or written and no write ever starts.
\<close>

theorem C5_oversized_image_rejected:
  assumes "devices self = Some devs"
    and "device_dropdown self \<noteq> GTK_INVALID_LIST_POSITION"
    and "device_dropdown self < length devs"
    and "boot_dropdown self = 0" and "win_iso_path self = Some p"
    and "win_iso_info self = Some info"
    and "ii_size info > dev_size (devs ! device_dropdown self)"
  shows "run_job self os response env
           = (if ii_is_bootable info then []
              else [Set_status ''Warning: ISO may not be bootable'' ''status-error''])
             @ [Set_status ''ISO is larger than the target device'' ''status-error'']
       \<and> snd (on_start_clicked self os) = None
       \<and> (\<forall>c \<in> set (run_job self os response env). \<not> destructive c)"
  using assms by (simp add: run_job_def on_start_clicked_def Let_def)

theorem C5_oversized_image_rejected_witness:
  "run_job
     \<lparr>device_dropdown = 0, boot_dropdown = 0, write_mode_dropdown = 0,
      partition_dropdown = 0, target_dropdown = 0, fs_dropdown = 0, cluster_dropdown = 0,
      label_entry = ''USB'',
      devices = Some [\<lparr>dev_name = ''sdb'', dev_path = ''/dev/sdb'', dev_size = 7680000000,
                        mountpoints = Some [''/media/usb''], mountpoint_count = 1\<rparr>],
      win_iso_path = Some ''image.iso'',
      win_iso_info = Some \<lparr>ii_size = 8000000000, ii_is_bootable = False, ii_has_efi = True,
                            ii_is_windows = False\<rparr>\<rparr>
     \<lparr>proc_mounts = Some [(''/dev/sdb1'', ''/media/usb'')], udev_devices = [],
      iso_extract_is_supported = True, umount2_ok = (\<lambda>m. True),
      umount_cmd_ok = (\<lambda>m. True)\<rparr>
     1
     \<lparr>partition_ok = True, path_malloc_ok = True, esp_format_ok = True, format_ok = True,
      extract_ok = True, write_ok = True\<rparr>
   = [Set_status ''Warning: ISO may not be bootable'' ''status-error'',
      Set_status ''ISO is larger than the target device'' ''status-error'']"
  using C5_oversized_image_rejected
    [of "\<lparr>device_dropdown = 0, boot_dropdown = 0, write_mode_dropdown = 0,
          partition_dropdown = 0, target_dropdown = 0, fs_dropdown = 0, cluster_dropdown = 0,
          label_entry = ''USB'',
          devices = Some [\<lparr>dev_name = ''sdb'', dev_path = ''/dev/sdb'',
                            dev_size = 7680000000,
                            mountpoints = Some [''/media/usb''], mountpoint_count = 1\<rparr>],
          win_iso_path = Some ''image.iso'',
          win_iso_info = Some \<lparr>ii_size = 8000000000, ii_is_bootable = False,
                                ii_has_efi = True, ii_is_windows = False\<rparr>\<rparr>"
        "[\<lparr>dev_name = ''sdb'', dev_path = ''/dev/sdb'', dev_size = 7680000000,
           mountpoints = Some [''/media/usb''], mountpoint_count = 1\<rparr>]"
        "''image.iso''"
        "\<lparr>ii_size = 8000000000, ii_is_bootable = False, ii_has_efi = True,
          ii_is_windows = False\<rparr>"
        "\<lparr>proc_mounts = Some [(''/dev/sdb1'', ''/media/usb'')], udev_devices = [],
          iso_extract_is_supported = True, umount2_ok = (\<lambda>m. True),
          umount_cmd_ok = (\<lambda>m. True)\<rparr>"
        1
        "\<lparr>partition_ok = True, path_malloc_ok = True, esp_format_ok = True,
          format_ok = True, extract_ok = True, write_ok = True\<rparr>"]
  by (simp add: GTK_INVALID_LIST_POSITION_def)

text \<open>
  Claim C8. A request to write an image in file-copy (extract) mode is refused with an
  error status line, without any destructive call and without creating an operation
  (so in particular without a raw write), whenever the image's analysis is missing,
  finds no EFI boot files or finds a Windows image, or the chosen filesystem is not
  FAT32, or the BIOS entry (index 0) of the target drop-down is selected.
\<close>

theorem C8_extract_preconditions:
  assumes "boot_dropdown self = 0" and "win_iso_path self = Some p"
    and "write_mode_dropdown self = 1"
    and "(case win_iso_info self of None \<Rightarrow> True
          | Some info \<Rightarrow> \<not> ii_has_efi info \<or> ii_is_windows info)
         \<or> fs_of_index (fs_dropdown self) \<noteq> FS_FAT32
         \<or> target_dropdown self = 0"
  shows "\<exists>pre msg. run_job self os response env = pre @ [Set_status msg ''status-error'']
           \<and> snd (on_start_clicked self os) = None
           \<and> (\<forall>c \<in> set (run_job self os response env). \<not> destructive c)"
proof -
  from assms(4) have cond:
    "win_iso_info self = None
     \<or> (\<exists>info. win_iso_info self = Some info \<and> (\<not> ii_has_efi info \<or> ii_is_windows info))
     \<or> fs_dropdown self \<noteq> 0 \<or> target_dropdown self = 0"
    by (auto simp: fs_of_index_def split: option.splits if_splits)
  have wrap: "\<exists>pre msg. on_start_clicked self os = (pre @ [Set_status msg ''status-error''], None)
                 \<and> (\<forall>c \<in> set pre. \<not> destructive c)"
    if "on_start_clicked self os = (pre @ [Set_status msg ''status-error''], None)"
      and "\<forall>c \<in> set pre. \<not> destructive c" for pre msg
    using that by blast
  have "\<exists>pre msg. on_start_clicked self os = (pre @ [Set_status msg ''status-error''], None)
          \<and> (\<forall>c \<in> set pre. \<not> destructive c)"
  proof (cases "devices self")
    case None
    then show ?thesis
      by (intro wrap [of "[]" "''No device selected''"]) (simp_all add: on_start_clicked_def)
  next
    case (Some devs)
    show ?thesis
    proof (cases "device_dropdown self = GTK_INVALID_LIST_POSITION \<or> device_dropdown self \<ge> length devs")
      case True
      with Some show ?thesis
        by (intro wrap [of "[]" "''No device selected''"]) (auto simp: on_start_clicked_def)
    next
      case False
      show ?thesis
      proof (cases "win_iso_info self")
        case None
        with Some False assms(1-3) show ?thesis
          by (intro wrap [of "[]" "''Please select an ISO image''"])
             (auto simp: on_start_clicked_def Let_def)
      next
        case (Some info)
        let ?warn = "if \<not> ii_is_bootable info
                     then [Set_status ''Warning: ISO may not be bootable'' ''status-error'']
                     else []"
        from cond Some have "\<not> ii_has_efi info \<or> ii_is_windows info
           \<or> fs_dropdown self \<noteq> 0 \<or> target_dropdown self = 0"
          by auto
        with \<open>devices self = Some devs\<close> False Some assms(1-3)
        have "\<exists>msg. on_start_clicked self os = (?warn @ [Set_status msg ''status-error''], None)"
          by (auto simp: on_start_clicked_def Let_def)
        then obtain msg where
          "on_start_clicked self os = (?warn @ [Set_status msg ''status-error''], None)"
          by blast
        then show ?thesis
          by (intro wrap [of ?warn msg]) auto
      qed
    qed
  qed
  then obtain pre msg where
    r: "on_start_clicked self os = (pre @ [Set_status msg ''status-error''], None)"
    and nd: "\<forall>c \<in> set pre. \<not> destructive c"
    by blast
  from r have "run_job self os response env = pre @ [Set_status msg ''status-error'']"
    by (simp add: run_job_def)
  with r nd show ?thesis by auto
qed

theorem C8_extract_preconditions_witness:
  "\<exists>pre msg.
     run_job
       \<lparr>device_dropdown = 0, boot_dropdown = 0, write_mode_dropdown = 1,
        partition_dropdown = 1, target_dropdown = 0, fs_dropdown = 0, cluster_dropdown = 0,
        label_entry = ''USB'',
        devices = Some [\<lparr>dev_name = ''sdb'', dev_path = ''/dev/sdb'',
                          dev_size = 7680000000,
                          mountpoints = Some [''/media/usb''], mountpoint_count = 1\<rparr>],
        win_iso_path = Some ''image.iso'',
        win_iso_info = Some \<lparr>ii_size = 4000000000, ii_is_bootable = True,
                              ii_has_efi = True, ii_is_windows = False\<rparr>\<rparr>
       \<lparr>proc_mounts = Some [(''/dev/sdb1'', ''/media/usb'')], udev_devices = [],
        iso_extract_is_supported = True, umount2_ok = (\<lambda>m. True),
        umount_cmd_ok = (\<lambda>m. True)\<rparr>
       1
       \<lparr>partition_ok = True, path_malloc_ok = True, esp_format_ok = True,
        format_ok = True, extract_ok = True, write_ok = True\<rparr>
     = pre @ [Set_status msg ''status-error'']
     \<and> snd (on_start_clicked
              \<lparr>device_dropdown = 0, boot_dropdown = 0, write_mode_dropdown = 1,
               partition_dropdown = 1, target_dropdown = 0, fs_dropdown = 0,
               cluster_dropdown = 0, label_entry = ''USB'',
               devices = Some [\<lparr>dev_name = ''sdb'', dev_path = ''/dev/sdb'',
                                 dev_size = 7680000000,
                                 mountpoints = Some [''/media/usb''],
                                 mountpoint_count = 1\<rparr>],
               win_iso_path = Some ''image.iso'',
               win_iso_info = Some \<lparr>ii_size = 4000000000, ii_is_bootable = True,
                                     ii_has_efi = True, ii_is_windows = False\<rparr>\<rparr>
              \<lparr>proc_mounts = Some [(''/dev/sdb1'', ''/media/usb'')], udev_devices = [],
               iso_extract_is_supported = True, umount2_ok = (\<lambda>m. True),
               umount_cmd_ok = (\<lambda>m. True)\<rparr>) = None"
  using C8_extract_preconditions
    [of "\<lparr>device_dropdown = 0, boot_dropdown = 0, write_mode_dropdown = 1,
          partition_dropdown = 1, target_dropdown = 0, fs_dropdown = 0, cluster_dropdown = 0,
          label_entry = ''USB'',
          devices = Some [\<lparr>dev_name = ''sdb'', dev_path = ''/dev/sdb'',
                            dev_size = 7680000000,
                            mountpoints = Some [''/media/usb''], mountpoint_count = 1\<rparr>],
          win_iso_path = Some ''image.iso'',
          win_iso_info = Some \<lparr>ii_size = 4000000000, ii_is_bootable = True,
                                ii_has_efi = True, ii_is_windows = False\<rparr>\<rparr>"
        "''image.iso''"
        "\<lparr>proc_mounts = Some [(''/dev/sdb1'', ''/media/usb'')], udev_devices = [],
          iso_extract_is_supported = True, umount2_ok = (\<lambda>m. True),
          umount_cmd_ok = (\<lambda>m. True)\<rparr>"
        1
        "\<lparr>partition_ok = True, path_malloc_ok = True, esp_format_ok = True,
          format_ok = True, extract_ok = True, write_ok = True\<rparr>"]
  by simp

end
